theory Spec2Isabelle
  imports Main
begin

section \<open>The Chat Analyzer page (1_Main_App.py) as a state-passing function\<close>

text \<open>
  The repository's one source file is the Streamlit page \<^verbatim>\<open>1_Main_App.py\<close>. Its function
  \<^verbatim>\<open>whatsapp_chat_analyzer\<close> reads the session state, asks for an upload, decodes it,
  hands the text to \<^verbatim>\<open>chat_parser.preprocess_chat\<close> (a module of the repository whose code
  is not among the sources), cleans the table it gets back and shows statistics and charts.

  The model keeps Python's dynamic typing: values are tagged, a missing column or a
  wrong type is an exception value, and the \<^verbatim>\<open>try/except Exception\<close> of the page is a
  branch on that value. Every call into Streamlit is an event of a trace, in source order.
\<close>

subsection \<open>Strings\<close>

text \<open>
  A Python \<^verbatim>\<open>str\<close> is a sequence of Unicode code points, here a list of naturals.
  \<open>ascii\<close> turns an ASCII literal of the theory into such a string.
\<close>

type_synonym ustr = "nat list"

definition ascii :: "string \<Rightarrow> ustr" where
  "ascii s = map of_char s"

text \<open>\<^verbatim>\<open>s.startswith(p)\<close> and \<^verbatim>\<open>p in s\<close> (also \<^verbatim>\<open>Series.str.contains(p)\<close> for a
  pattern without regular-expression operators).\<close>

fun startswith :: "'a list \<Rightarrow> 'a list \<Rightarrow> bool" where
  "startswith s [] = True"
| "startswith [] (p # ps) = False"
| "startswith (c # cs) (p # ps) = (c = p \<and> startswith cs ps)"

fun contains :: "'a list \<Rightarrow> 'a list \<Rightarrow> bool" where
  "contains [] p = (p = [])"
| "contains (c # cs) p = (startswith (c # cs) p \<or> contains cs p)"

text \<open>The characters \<^verbatim>\<open>str.isspace\<close> accepts, which are the separators of
  \<^verbatim>\<open>str.split()\<close> without arguments.\<close>

definition is_space :: "nat \<Rightarrow> bool" where
  "is_space c =
     (c \<in> set [9, 10, 11, 12, 13, 28, 29, 30, 31, 32, 133, 160, 5760,
                8232, 8233, 8239, 8287, 12288]
      \<or> (8192 \<le> c \<and> c \<le> 8202))"

text \<open>\<^verbatim>\<open>s.split()\<close>: the maximal runs of characters that are not whitespace; \<open>cur\<close> is
  the run being read, reversed.\<close>

fun split_from :: "ustr \<Rightarrow> ustr \<Rightarrow> ustr list" where
  "split_from cur [] = (if cur = [] then [] else [rev cur])"
| "split_from cur (c # cs) =
     (if is_space c
      then (if cur = [] then split_from [] cs else rev cur # split_from [] cs)
      else split_from (c # cur) cs)"

definition py_split :: "ustr \<Rightarrow> ustr list" where
  "py_split s = split_from [] s"

text \<open>\<^verbatim>\<open>s.strip()\<close>: without the whitespace at both ends.\<close>

definition py_strip :: "ustr \<Rightarrow> ustr" where
  "py_strip s = rev (dropWhile is_space (rev (dropWhile is_space s)))"

subsection \<open>Decoding the upload: \<^verbatim>\<open>bytes.decode("utf-8")\<close>\<close>

text \<open>
  The strict UTF-8 decoder: one to four bytes per code point, no overlong form, no
  surrogate (U+D800 to U+DFFF), nothing above U+10FFFF. \<open>None\<close> is Python's
  \<^verbatim>\<open>UnicodeDecodeError\<close>.
\<close>

definition cont_byte :: "nat \<Rightarrow> bool" where
  "cont_byte b = (128 \<le> b \<and> b < 192)"

fun utf8 :: "nat list \<Rightarrow> ustr option" where
  "utf8 [] = Some []"
| "utf8 (b # bs) =
     (if b < 128 then map_option ((#) b) (utf8 bs)
      else if 194 \<le> b \<and> b < 224 then
        (case bs of
           c1 # r \<Rightarrow>
             if cont_byte c1
             then map_option ((#) ((b - 192) * 64 + (c1 - 128))) (utf8 r)
             else None
         | _ \<Rightarrow> None)
      else if 224 \<le> b \<and> b < 240 then
        (case bs of
           c1 # c2 # r \<Rightarrow>
             if cont_byte c1 \<and> cont_byte c2
                \<and> (if b = 224 then 160 \<le> c1 else True)
                \<and> (if b = 237 then c1 < 160 else True)
             then map_option
                    ((#) ((b - 224) * 4096 + (c1 - 128) * 64 + (c2 - 128))) (utf8 r)
             else None
         | _ \<Rightarrow> None)
      else if 240 \<le> b \<and> b < 245 then
        (case bs of
           c1 # c2 # c3 # r \<Rightarrow>
             if cont_byte c1 \<and> cont_byte c2 \<and> cont_byte c3
                \<and> (if b = 240 then 144 \<le> c1 else True)
                \<and> (if b = 244 then c1 < 144 else True)
             then map_option
                    ((#) ((b - 240) * 262144 + (c1 - 128) * 4096 + (c2 - 128) * 64
                          + (c3 - 128))) (utf8 r)
             else None
         | _ \<Rightarrow> None)
      else None)"

text \<open>The upload is a byte string: Isabelle's \<open>char\<close> is a byte.\<close>

definition decode_utf8 :: "string \<Rightarrow> ustr option" where
  "decode_utf8 bytes = utf8 (map of_char bytes)"

subsection \<open>Tables: the pandas DataFrame\<close>

text \<open>
  A cell holds a Python object: a string, a timestamp (pandas stores nanoseconds since
  the epoch), an integer, or a missing value (\<^verbatim>\<open>None\<close>, \<^verbatim>\<open>NaN\<close>, \<^verbatim>\<open>NaT\<close>:
  what \<^verbatim>\<open>dropna\<close> drops). A table is its column names and its rows; a row maps column
  names to cells.
\<close>

datatype cell = CStr ustr | CTime int | CInt int | CNull

type_synonym row = "(string \<times> cell) list"

record dataframe =
  columns :: "string list"
  rows :: "row list"

datatype pyerror =
  UnicodeDecodeError | KeyError string | TypeError | AttributeError | ValueError
  | Raised string

definition cell_of :: "row \<Rightarrow> string \<Rightarrow> cell" where
  "cell_of r c = (case map_of r c of Some v \<Rightarrow> v | None \<Rightarrow> CNull)"

fun put :: "string \<Rightarrow> cell \<Rightarrow> row \<Rightarrow> row" where
  "put c v [] = [(c, v)]"
| "put c v ((k, x) # r) = (if k = c then (c, v) # r else (k, x) # put c v r)"

definition col :: "dataframe \<Rightarrow> string \<Rightarrow> cell list" where
  "col df c = map (\<lambda>r. cell_of r c) (rows df)"

text \<open>\<^verbatim>\<open>df[c]\<close>: a missing column raises \<^verbatim>\<open>KeyError\<close>.\<close>

definition getcol :: "dataframe \<Rightarrow> string \<Rightarrow> pyerror + cell list" where
  "getcol df c = (if c \<in> set (columns df) then Inr (col df c) else Inl (KeyError c))"

text \<open>\<^verbatim>\<open>df[c] = series\<close>, for a series computed row by row from \<^verbatim>\<open>df\<close> itself (every
  assignment of the page is of this kind): the column is replaced, or added last.\<close>

definition setcol :: "dataframe \<Rightarrow> string \<Rightarrow> (row \<Rightarrow> cell) \<Rightarrow> dataframe" where
  "setcol df c f =
     \<lparr>columns = (if c \<in> set (columns df) then columns df else columns df @ [c]),
      rows = map (\<lambda>r. put c (f r) r) (rows df)\<rparr>"

text \<open>\<^verbatim>\<open>df.dropna(subset=[c])\<close> and \<^verbatim>\<open>df.head(n)\<close>.\<close>

definition dropna :: "dataframe \<Rightarrow> string \<Rightarrow> dataframe" where
  "dropna df c = df\<lparr>rows := filter (\<lambda>r. cell_of r c \<noteq> CNull) (rows df)\<rparr>"

definition head :: "nat \<Rightarrow> dataframe \<Rightarrow> dataframe" where
  "head n df = df\<lparr>rows := take n (rows df)\<rparr>"

text \<open>The strings of a column, or the exception \<open>err\<close> that the first cell of another
  type raises when a string method is called on it.\<close>

fun all_str :: "pyerror \<Rightarrow> cell list \<Rightarrow> pyerror + ustr list" where
  "all_str err [] = Inr []"
| "all_str err (CStr s # cs) =
     (case all_str err cs of Inl e \<Rightarrow> Inl e | Inr ss \<Rightarrow> Inr (s # ss))"
| "all_str err (_ # cs) = Inl err"

subsection \<open>Python objects, the session state, the trace\<close>

datatype pyobj =
  PNone | PBool bool | PInt int | PStr ustr | PFrame dataframe | PTuple "pyobj list"

text \<open>Truth of an object, as \<^verbatim>\<open>not\<close> and \<^verbatim>\<open>if\<close> test it. A DataFrame has none:
  pandas raises \<^verbatim>\<open>ValueError\<close>.\<close>

fun truthy :: "pyobj \<Rightarrow> pyerror + bool" where
  "truthy PNone = Inr False"
| "truthy (PBool b) = Inr b"
| "truthy (PInt n) = Inr (n \<noteq> 0)"
| "truthy (PStr s) = Inr (s \<noteq> [])"
| "truthy (PFrame df) = Inl ValueError"
| "truthy (PTuple xs) = Inr (xs \<noteq> [])"

text \<open>\<^verbatim>\<open>obj[c]\<close> with a string key: a column of a DataFrame; \<^verbatim>\<open>TypeError\<close> for a tuple,
  a string, a number or \<^verbatim>\<open>None\<close>.\<close>

fun getitem :: "pyobj \<Rightarrow> string \<Rightarrow> pyerror + cell list" where
  "getitem (PFrame df) c = getcol df c"
| "getitem _ c = Inl TypeError"

text \<open>\<^verbatim>\<open>if obj == "literal"\<close>: comparing a DataFrame gives a DataFrame, whose truth
  raises.\<close>

fun equals_str :: "pyobj \<Rightarrow> ustr \<Rightarrow> pyerror + bool" where
  "equals_str (PStr s) l = Inr (s = l)"
| "equals_str (PFrame df) l = Inl ValueError"
| "equals_str _ l = Inr False"

type_synonym session = "string \<Rightarrow> pyobj option"

definition session_get :: "session \<Rightarrow> string \<Rightarrow> pyobj \<Rightarrow> pyobj" where
  "session_get s k d = (case s k of Some v \<Rightarrow> v | None \<Rightarrow> d)"

text \<open>The calls into Streamlit, and the call of the parser, in the order the page makes
  them. Labels are the page's own, without their emoji.\<close>

datatype event =
  Warning string
  | Title string
  | FileUploader string
  | ParserCall ustr
  | Subheader string
  | DataframeView dataframe
  | Metric string nat
  | Button string
  | Chart string "cell list list"
  | WriteText string nat
  | ErrorMsg pyerror
  | SwitchPage string

text \<open>
  What the page gets from outside: the upload (\<open>None\<close> when no file is chosen), the
  parser \<^verbatim>\<open>preprocess_chat\<close> (its code is not among the sources: any function from the
  decoded text to an object or an exception), pandas' \<^verbatim>\<open>to_datetime(..., errors='coerce')\<close>
  (\<open>None\<close> is \<^verbatim>\<open>NaT\<close>; it sees the whole column, since pandas infers one format for it),
  the two buttons, the \<^verbatim>\<open>.dt\<close> accessors, \<^verbatim>\<open>str.lower\<close>, the emoji table, and the
  plotting libraries, which may raise on the data they are given.
\<close>

record env =
  uploaded_file :: "string option"
  preprocess_chat :: "ustr \<Rightarrow> pyerror + pyobj"
  to_datetime :: "cell list \<Rightarrow> cell \<Rightarrow> int option"
  sent_btn :: bool
  tox_btn :: bool
  dt_day_name :: "int \<Rightarrow> cell"
  dt_hour :: "int \<Rightarrow> cell"
  dt_month :: "int \<Rightarrow> cell"
  dt_date :: "int \<Rightarrow> cell"
  str_lower :: "ustr \<Rightarrow> ustr"
  is_emoji :: "nat \<Rightarrow> bool"
  render :: "string \<Rightarrow> cell list list \<Rightarrow> pyerror option"

record outcome =
  state :: session
  trace :: "event list"
  uncaught :: "pyerror option"

subsection \<open>Lines 43 to 46: the basic statistics\<close>

text \<open>
  \<^verbatim>\<open>total_words = df['message'].apply(lambda x: len(x.split())).sum()\<close>: a cell that is
  not a string has no \<^verbatim>\<open>split\<close> (\<^verbatim>\<open>AttributeError\<close>).
  \<^verbatim>\<open>total_media = df['message'].str.contains('<Media omitted>').sum()\<close> and
  \<^verbatim>\<open>total_links = df['message'].str.contains(r'http[s]?://', regex=True).sum()\<close>: the
  pattern \<^verbatim>\<open>http[s]?://\<close> matches exactly \<^verbatim>\<open>http://\<close> and \<^verbatim>\<open>https://\<close>, anywhere.
\<close>

definition media_placeholder :: ustr where
  "media_placeholder = ascii ''<Media omitted>''"

definition is_media :: "ustr \<Rightarrow> bool" where
  "is_media msg = contains msg media_placeholder"

definition is_link :: "ustr \<Rightarrow> bool" where
  "is_link msg = (contains msg (ascii ''http://'') \<or> contains msg (ascii ''https://''))"

definition total_words :: "ustr list \<Rightarrow> nat" where
  "total_words msgs = sum_list (map (\<lambda>x. length (py_split x)) msgs)"

definition total_media :: "ustr list \<Rightarrow> nat" where
  "total_media msgs = length (filter is_media msgs)"

definition total_links :: "ustr list \<Rightarrow> nat" where
  "total_links msgs = length (filter is_link msgs)"

definition basic_statistics :: "dataframe \<Rightarrow> pyerror + nat \<times> nat \<times> nat \<times> nat" where
  "basic_statistics df =
     (case getcol df ''message'' of
        Inl e \<Rightarrow> Inl e
      | Inr cells \<Rightarrow>
          (case all_str AttributeError cells of
             Inl e \<Rightarrow> Inl e
           | Inr msgs \<Rightarrow>
               Inr (length (rows df), total_words msgs, total_media msgs, total_links msgs)))"

subsection \<open>Lines 66 to 154: the charts\<close>

text \<open>
  Each section shows its subheader, reads columns of the table, may add a derived column
  to it, and hands data to a plotting library. The libraries' own aggregation
  (\<^verbatim>\<open>value_counts\<close>, \<^verbatim>\<open>pivot_table\<close>, \<^verbatim>\<open>Counter.most_common\<close>) is not modelled: a
  \<open>Chart\<close> event carries the columns that are aggregated. A section's result is the
  events it emitted, the exception that ended it (if any), and the table as it left it.
\<close>

type_synonym section_result = "event list \<times> pyerror option \<times> dataframe"

definition draw :: "env \<Rightarrow> string \<Rightarrow> cell list list \<Rightarrow> dataframe \<Rightarrow> section_result" where
  "draw e l data df =
     (case render e l data of
        Some err \<Rightarrow> ([Subheader l], Some err, df)
      | None \<Rightarrow> ([Subheader l, Chart l data], None, df))"

definition on_time :: "(int \<Rightarrow> cell) \<Rightarrow> cell \<Rightarrow> cell" where
  "on_time f c = (case c of CTime t \<Rightarrow> f t | _ \<Rightarrow> CNull)"

text \<open>Sections that derive a column from \<^verbatim>\<open>df['date'].dt\<close> and plot its counts
  (lines 67 to 84: day of week, hour, month).\<close>

definition date_section :: "env \<Rightarrow> string \<Rightarrow> string \<Rightarrow> (int \<Rightarrow> cell) \<Rightarrow> dataframe \<Rightarrow> section_result"
  where
  "date_section e l new f df =
     (case getcol df ''date'' of
        Inl err \<Rightarrow> ([Subheader l], Some err, df)
      | Inr _ \<Rightarrow>
          (let df' = setcol df new (\<lambda>r. on_time f (cell_of r ''date''))
           in draw e l [col df' new] df'))"

text \<open>Lines 86 to 90: \<^verbatim>\<open>df['msg_length'] = df['message'].apply(len)\<close>.\<close>

definition length_section :: "env \<Rightarrow> dataframe \<Rightarrow> section_result" where
  "length_section e df =
     (let l = ''Message Length Distribution'' in
      case getcol df ''message'' of
        Inl err \<Rightarrow> ([Subheader l], Some err, df)
      | Inr cells \<Rightarrow>
          (case all_str TypeError cells of
             Inl err \<Rightarrow> ([Subheader l], Some err, df)
           | Inr _ \<Rightarrow>
               (let df' = setcol df ''msg_length''
                            (\<lambda>r. case cell_of r ''message'' of
                                   CStr s \<Rightarrow> CInt (int (length s)) | _ \<Rightarrow> CNull)
                in draw e l [col df' ''msg_length''] df')))"

text \<open>Lines 92 to 94 (\<^verbatim>\<open>df.groupby(df['date'].dt.date).size()\<close>) and 96 to 105 (the
  pivot of messages by day name and hour).\<close>

definition daily_section :: "env \<Rightarrow> dataframe \<Rightarrow> section_result" where
  "daily_section e df =
     (let l = ''Daily Messages Trend'' in
      case getcol df ''date'' of
        Inl err \<Rightarrow> ([Subheader l], Some err, df)
      | Inr dates \<Rightarrow> draw e l [map (on_time (dt_date e)) dates] df)"

definition heatmap_section :: "env \<Rightarrow> dataframe \<Rightarrow> section_result" where
  "heatmap_section e df =
     (let l = ''Weekly Activity Heatmap'' in
      case getcol df ''date'' of
        Inl err \<Rightarrow> ([Subheader l], Some err, df)
      | Inr dates \<Rightarrow>
          (case getcol df ''message'' of
             Inl err \<Rightarrow> ([Subheader l], Some err, df)
           | Inr msgs \<Rightarrow>
               draw e l [map (on_time (dt_day_name e)) dates,
                         map (on_time (dt_hour e)) dates, msgs] df))"

text \<open>Lines 107 to 120: the words of the messages that hold no \<^verbatim>\<open>http\<close> and do not
  start with \<^verbatim>\<open><Media\<close>, lower-cased, without the stop words; the chart is drawn only
  when a word is left (\<^verbatim>\<open>if freq:\<close>).\<close>

definition stop_words :: "ustr list" where
  "stop_words = map ascii [''the'', ''a'', ''to'', ''is'', ''and'', ''i'', ''you'', ''of'',
     ''in'', ''for'', ''on'', ''me'', ''my'', ''it'', ''this'', ''that'', ''so'', ''at'', ''be'']"

definition plain_text :: "ustr \<Rightarrow> bool" where
  "plain_text msg = (\<not> contains msg (ascii ''http'') \<and> \<not> startswith msg (ascii ''<Media''))"

definition words_section :: "env \<Rightarrow> dataframe \<Rightarrow> section_result" where
  "words_section e df =
     (let l = ''Most Common Words'' in
      case getcol df ''message'' of
        Inl err \<Rightarrow> ([Subheader l], Some err, df)
      | Inr cells \<Rightarrow>
          (case all_str TypeError cells of
             Inl err \<Rightarrow> ([Subheader l], Some err, df)
           | Inr msgs \<Rightarrow>
               (let ws = concat (map (\<lambda>m. py_split (str_lower e m)) (filter plain_text msgs));
                    cleaned = filter (\<lambda>w. w \<notin> set stop_words) ws
                in if cleaned = [] then ([Subheader l], None, df)
                   else draw e l [map CStr cleaned] df)))"

text \<open>Lines 122 to 125 (\<^verbatim>\<open>df['day'] = df['date'].dt.date\<close>, then the pivot of messages
  by day and \<^verbatim>\<open>user\<close>) and 135 to 139 (\<^verbatim>\<open>df['user'].value_counts()\<close>).\<close>

definition user_activity_section :: "env \<Rightarrow> dataframe \<Rightarrow> section_result" where
  "user_activity_section e df =
     (let l = ''User Activity Over Time'' in
      case getcol df ''date'' of
        Inl err \<Rightarrow> ([Subheader l], Some err, df)
      | Inr _ \<Rightarrow>
          (let df' = setcol df ''day'' (\<lambda>r. on_time (dt_date e) (cell_of r ''date''))
           in case getcol df' ''user'' of
                Inl err \<Rightarrow> ([Subheader l], Some err, df')
              | Inr users \<Rightarrow>
                  (case getcol df' ''message'' of
                     Inl err \<Rightarrow> ([Subheader l], Some err, df')
                   | Inr msgs \<Rightarrow> draw e l [col df' ''day'', users, msgs] df')))"

definition user_share_section :: "env \<Rightarrow> dataframe \<Rightarrow> section_result" where
  "user_share_section e df =
     (let l = ''Messages Distribution by User'' in
      case getcol df ''user'' of
        Inl err \<Rightarrow> ([Subheader l], Some err, df)
      | Inr users \<Rightarrow> draw e l [users] df)"

text \<open>Lines 127 to 133: the word cloud of the same messages, joined by spaces.\<close>

fun join_space :: "ustr list \<Rightarrow> ustr" where
  "join_space [] = []"
| "join_space [m] = m"
| "join_space (m # ms) = m @ 32 # join_space ms"

definition cloud_section :: "env \<Rightarrow> dataframe \<Rightarrow> section_result" where
  "cloud_section e df =
     (let l = ''Word Cloud'' in
      case getcol df ''message'' of
        Inl err \<Rightarrow> ([Subheader l], Some err, df)
      | Inr cells \<Rightarrow>
          (case all_str AttributeError cells of
             Inl err \<Rightarrow> ([Subheader l], Some err, df)
           | Inr msgs \<Rightarrow> draw e l [[CStr (join_space (filter plain_text msgs))]] df))"

text \<open>Lines 141 to 154: the characters that are emoji; the total is written, the chart
  is drawn when there is one.\<close>

definition emoji_section :: "env \<Rightarrow> dataframe \<Rightarrow> section_result" where
  "emoji_section e df =
     (let l = ''Emoji Usage'' in
      case getcol df ''message'' of
        Inl err \<Rightarrow> ([Subheader l], Some err, df)
      | Inr cells \<Rightarrow>
          (case all_str TypeError cells of
             Inl err \<Rightarrow> ([Subheader l], Some err, df)
           | Inr msgs \<Rightarrow>
               (let all_emojis = filter (is_emoji e) (concat msgs);
                    n = length all_emojis
                in if n = 0 then ([Subheader l, WriteText ''Total Emojis Used'' n], None, df)
                   else (case render e l [map (\<lambda>c. CStr [c]) all_emojis] of
                           Some err \<Rightarrow>
                             ([Subheader l, WriteText ''Total Emojis Used'' n], Some err, df)
                         | None \<Rightarrow>
                             ([Subheader l, WriteText ''Total Emojis Used'' n,
                               Chart l [map (\<lambda>c. CStr [c]) all_emojis]], None, df)))))"

text \<open>The sections run in order; an exception ends the run, and what the earlier
  sections did to the table stays.\<close>

fun run_sections :: "(dataframe \<Rightarrow> section_result) list \<Rightarrow> dataframe \<Rightarrow> section_result" where
  "run_sections [] df = ([], None, df)"
| "run_sections (f # fs) df =
     (case f df of
        (evs, Some err, df') \<Rightarrow> (evs, Some err, df')
      | (evs, None, df') \<Rightarrow>
          (case run_sections fs df' of (evs', r, df'') \<Rightarrow> (evs @ evs', r, df'')))"

definition charts :: "env \<Rightarrow> dataframe \<Rightarrow> section_result" where
  "charts e df =
     run_sections
       [date_section e ''Messages by Day of Week'' ''day_name'' (dt_day_name e),
        date_section e ''Messages by Hour'' ''hour'' (dt_hour e),
        date_section e ''Messages per Month'' ''month'' (dt_month e),
        length_section e, daily_section e, heatmap_section e, words_section e,
        user_activity_section e, cloud_section e, user_share_section e, emoji_section e]
       df"

subsection \<open>Lines 16 to 164: the page\<close>

text \<open>Lines 28 to 32: the parser is called, the \<^verbatim>\<open>date\<close> column is coerced
  (\<^verbatim>\<open>df['date'] = pd.to_datetime(df['date'], errors='coerce')\<close>) and the rows without a
  date are dropped (\<^verbatim>\<open>df = df.dropna(subset=['date'])\<close>).\<close>

definition coerce_dates :: "env \<Rightarrow> cell list \<Rightarrow> dataframe \<Rightarrow> dataframe" where
  "coerce_dates e dates df =
     setcol df ''date''
       (\<lambda>r. case to_datetime e dates (cell_of r ''date'') of
              Some t \<Rightarrow> CTime t | None \<Rightarrow> CNull)"

definition load_table :: "env \<Rightarrow> ustr \<Rightarrow> pyerror + dataframe" where
  "load_table e chat_data =
     (case preprocess_chat e chat_data of
        Inl err \<Rightarrow> Inl err
      | Inr obj \<Rightarrow>
          (case getitem obj ''date'' of
             Inl err \<Rightarrow> Inl err
           | Inr dates \<Rightarrow>
               (case obj of
                  PFrame df \<Rightarrow> Inr (dropna (coerce_dates e dates df) ''date'')
                | _ \<Rightarrow> Inl TypeError)))"

text \<open>Lines 58 to 64: a pressed button records the page to go to.\<close>

definition buttons :: "env \<Rightarrow> session \<Rightarrow> session" where
  "buttons e s =
     (let s2 = (if sent_btn e then s(''go_to_page'' \<mapsto> PStr (ascii ''sentiment'')) else s)
      in if tox_btn e then s2(''go_to_page'' \<mapsto> PStr (ascii ''toxicity'')) else s2)"

text \<open>
  Lines 27 to 154, the body of the \<^verbatim>\<open>try\<close>: the session state and the events at the
  point where the body ended, and the exception that ended it, if any. The table stored
  under \<^verbatim>\<open>chat_df\<close> (line 35) is the very object the chart sections later add columns
  to, so the stored table is the table as the sections left it.
\<close>

definition analysis :: "env \<Rightarrow> string \<Rightarrow> session \<Rightarrow> session \<times> event list \<times> pyerror option"
  where
  "analysis e bytes s =
     (case decode_utf8 bytes of
        None \<Rightarrow> (s, [], Some UnicodeDecodeError)
      | Some chat_data \<Rightarrow>
          (case load_table e chat_data of
             Inl err \<Rightarrow> (s, [ParserCall chat_data], Some err)
           | Inr df \<Rightarrow>
               (let s1 = s(''chat_df'' \<mapsto> PFrame df);
                    ev1 = [ParserCall chat_data, Subheader ''Chat Preview'',
                           DataframeView (head 20 df), Subheader ''Basic Statistics'']
                in case basic_statistics df of
                     Inl err \<Rightarrow> (s1, ev1, Some err)
                   | Inr (total_messages, n_words, n_media, n_links) \<Rightarrow>
                       (let ev2 = [Metric ''Messages'' total_messages,
                                   Metric ''Words'' n_words,
                                   Metric ''Media Shared'' n_media,
                                   Metric ''Links Shared'' n_links,
                                   Subheader ''More Analysis Options'',
                                   Button ''sent_btn'', Button ''tox_btn''];
                            s2 = buttons e s1
                        in case charts e df of
                             (ev3, r, df') \<Rightarrow>
                               (s2(''chat_df'' \<mapsto> PFrame df'), ev1 @ ev2 @ ev3, r)))))"

text \<open>Lines 159 to 164: \<^verbatim>\<open>st.switch_page\<close> ends the run of the script.\<close>

definition redirect :: "session \<Rightarrow> event list \<times> pyerror option" where
  "redirect s =
     (case equals_str (session_get s ''go_to_page'' PNone) (ascii ''sentiment'') of
        Inl err \<Rightarrow> ([], Some err)
      | Inr True \<Rightarrow> ([SwitchPage ''pages/2_Sentiment_Analysis''], None)
      | Inr False \<Rightarrow>
          (case equals_str (session_get s ''go_to_page'' PNone) (ascii ''toxicity'') of
             Inl err \<Rightarrow> ([], Some err)
           | Inr True \<Rightarrow> ([SwitchPage ''pages/3_Toxicity_Analysis''], None)
           | Inr False \<Rightarrow> ([], None)))"

text \<open>
  \<^verbatim>\<open>whatsapp_chat_analyzer\<close>. Lines 17 to 19 are the login gate; the \<^verbatim>\<open>except\<close> of
  lines 156 and 157 shows any exception of the body with \<^verbatim>\<open>st.error\<close> and goes on to
  the redirect. An exception outside the \<^verbatim>\<open>try\<close> is not caught.
\<close>

definition login_warning :: string where
  "login_warning = ''You must log in as admin to access the Chat Analyzer.''"

text \<open>Line 17: \<^verbatim>\<open>st.session_state.get("admin_logged_in", False)\<close>, as \<^verbatim>\<open>not\<close> tests it.\<close>

definition admin_logged_in :: "session \<Rightarrow> pyerror + bool" where
  "admin_logged_in s = truthy (session_get s ''admin_logged_in'' (PBool False))"

definition whatsapp_chat_analyzer :: "env \<Rightarrow> session \<Rightarrow> outcome" where
  "whatsapp_chat_analyzer e s =
     (case admin_logged_in s of
        Inl err \<Rightarrow> \<lparr>state = s, trace = [], uncaught = Some err\<rparr>
      | Inr False \<Rightarrow> \<lparr>state = s, trace = [Warning login_warning], uncaught = None\<rparr>
      | Inr True \<Rightarrow>
          (let ev0 = [Title ''WhatsApp Chat Analyzer'',
                      FileUploader ''Upload your WhatsApp chat file (.txt)''];
               (s1, ev1) =
                 (case uploaded_file e of
                    None \<Rightarrow> (s, [])
                  | Some bytes \<Rightarrow>
                      (case analysis e bytes s of
                         (s', ev, None) \<Rightarrow> (s', ev)
                       | (s', ev, Some err) \<Rightarrow> (s', ev @ [ErrorMsg err])))
           in case redirect s1 of
                (ev2, r) \<Rightarrow> \<lparr>state = s1, trace = ev0 @ ev1 @ ev2, uncaught = r\<rparr>))"

section \<open>The log parser, from the specification\<close>

text \<open>
  Modelled from the spec: the parser itself (\<^verbatim>\<open>chat_parser.preprocess_chat\<close>) is code of
  the repository that is not among the sources; only its call at line 28 is. The
  definitions of this section follow the words of the specification (sections 3, 4 and
  6): the data model, the header decoder, the line classifier and the record assembler.
\<close>

subsection \<open>Data model\<close>

text \<open>Modelled from the spec: the configuration value selects the date-field order and
  the enabled header grammars (section 6); the two grammars are those of section 4.2.\<close>

datatype date_order = DayFirst | MonthFirst

text \<open>Modelled from the spec: the two header grammars of section 4.2, named by their punctuation.\<close>

datatype grammar = DashGrammar | BracketGrammar

text \<open>Modelled from the spec: the configuration value of a parse call (section 6).\<close>

record config =
  field_order :: date_order
  enabled :: "grammar list"

text \<open>Modelled from the spec: a timestamp is a calendar date and a time, without
  timezone; a ChatRecord has a timestamp, a sender, a body and a kind (section 3).\<close>

record timestamp =
  year :: nat
  month :: nat
  day :: nat
  hour :: nat
  minute :: nat
  second :: nat

text \<open>Modelled from the spec: the four kinds of a record (section 3).\<close>

datatype kind = Text | Media | SystemNotice | LinkBearing

text \<open>Modelled from the spec: the ChatRecord, the output unit of the parser (section 3).\<close>

record chat_record =
  timestamp :: timestamp
  sender :: ustr
  body :: ustr
  kind :: kind

text \<open>Modelled from the spec: a HeaderMatch is the timestamp, the sender name (absent for
  system lines) and the residual text of the line.\<close>

record header_match =
  h_stamp :: timestamp
  h_sender :: "ustr option"
  h_rest :: ustr

text \<open>Modelled from the spec: the reserved sender of application notices ("system").\<close>

definition system_sender :: ustr where
  "system_sender = ascii ''system''"

subsection \<open>Header decoder\<close>

text \<open>Modelled from the spec: scanning a decimal number of \<open>lo\<close> to \<open>hi\<close> digits, and a
  literal text; both give back the rest of the line.\<close>

definition is_digit :: "nat \<Rightarrow> bool" where
  "is_digit c = (48 \<le> c \<and> c \<le> 57)"

text \<open>Modelled from the spec: the value of a run of decimal digits.\<close>

definition number_of :: "ustr \<Rightarrow> nat" where
  "number_of ds = foldl (\<lambda>n c. 10 * n + (c - 48)) 0 ds"

text \<open>Modelled from the spec: a number of at least \<open>lo\<close> and at most \<open>hi\<close> digits at the start of
  the text.\<close>

definition scan_number :: "nat \<Rightarrow> nat \<Rightarrow> ustr \<Rightarrow> (nat \<times> ustr) option" where
  "scan_number lo hi s =
     (let ds = takeWhile is_digit s
      in if lo \<le> length ds \<and> length ds \<le> hi
         then Some (number_of ds, drop (length ds) s) else None)"

text \<open>Modelled from the spec: a literal text at the start of the text.\<close>

definition scan_lit :: "ustr \<Rightarrow> ustr \<Rightarrow> ustr option" where
  "scan_lit lit s = (if startswith s lit then Some (drop (length lit) s) else None)"

text \<open>Modelled from the spec: the calendar. The two-digit year \<open>YY\<close> is the year
  \<open>2000 + YY\<close> (the scenario of section 8 reads 23 as 2023); the configured order says
  which of the first two fields is the day.\<close>

definition leap_year :: "nat \<Rightarrow> bool" where
  "leap_year y = (y mod 4 = 0 \<and> (y mod 100 \<noteq> 0 \<or> y mod 400 = 0))"

text \<open>Modelled from the spec: the length of a month, for the date to be a calendar date.\<close>

definition days_in_month :: "nat \<Rightarrow> nat \<Rightarrow> nat" where
  "days_in_month y m =
     (if m = 2 then (if leap_year y then 29 else 28)
      else if m \<in> set [4, 6, 9, 11] then 30 else 31)"

text \<open>Modelled from the spec: the calendar date of the three fields of a date, in the configured
  order; \<open>None\<close> when they are no date.\<close>

definition date_of :: "date_order \<Rightarrow> nat \<Rightarrow> nat \<Rightarrow> nat \<Rightarrow> (nat \<times> nat \<times> nat) option" where
  "date_of ord a b yy =
     (let d = (case ord of DayFirst \<Rightarrow> a | MonthFirst \<Rightarrow> b);
          m = (case ord of DayFirst \<Rightarrow> b | MonthFirst \<Rightarrow> a);
          y = 2000 + yy
      in if 1 \<le> m \<and> m \<le> 12 \<and> 1 \<le> d \<and> d \<le> days_in_month y m
         then Some (y, m, d) else None)"

text \<open>Modelled from the spec: a date is three numbers separated by slashes
  (\<^verbatim>\<open>M/D/YY\<close>, \<^verbatim>\<open>D/MM/YY\<close>).\<close>

definition scan_date :: "date_order \<Rightarrow> ustr \<Rightarrow> ((nat \<times> nat \<times> nat) \<times> ustr) option" where
  "scan_date ord s =
     (case scan_number 1 2 s of
        None \<Rightarrow> None
      | Some (a, s1) \<Rightarrow>
          (case scan_lit (ascii ''/'') s1 of
             None \<Rightarrow> None
           | Some s2 \<Rightarrow>
               (case scan_number 1 2 s2 of
                  None \<Rightarrow> None
                | Some (b, s3) \<Rightarrow>
                    (case scan_lit (ascii ''/'') s3 of
                       None \<Rightarrow> None
                     | Some s4 \<Rightarrow>
                         (case scan_number 2 2 s4 of
                            None \<Rightarrow> None
                          | Some (yy, s5) \<Rightarrow>
                              (case date_of ord a b yy of
                                 None \<Rightarrow> None
                               | Some d \<Rightarrow> Some (d, s5)))))))"



text \<open>Modelled from the spec: the time is \<^verbatim>\<open>H:MM\<close> or, with seconds, \<^verbatim>\<open>H:MM:SS\<close>, in
  the 24-hour variant or in the 12-hour variant, which ends in a space and AM or PM.\<close>

definition scan_meridiem :: "ustr \<Rightarrow> (bool \<times> ustr) option" where
  "scan_meridiem s =
     (if startswith s (ascii '' AM'') \<or> startswith s (ascii '' am'') then Some (False, drop 3 s)
      else if startswith s (ascii '' PM'') \<or> startswith s (ascii '' pm'') then Some (True, drop 3 s)
      else None)"

text \<open>Modelled from the spec: the time of day of the fields of a time; in the 12-hour variant 12 AM
  is hour 0 and 12 PM is hour 12.\<close>

definition clock :: "nat \<Rightarrow> nat \<Rightarrow> nat \<Rightarrow> ustr \<Rightarrow> ((nat \<times> nat \<times> nat) \<times> ustr) option" where
  "clock h mi se s =
     (if 60 \<le> mi \<or> 60 \<le> se then None
      else case scan_meridiem s of
             Some (pm, s') \<Rightarrow>
               if 1 \<le> h \<and> h \<le> 12
               then Some ((h mod 12 + (if pm then 12 else 0), mi, se), s') else None
           | None \<Rightarrow> if h < 24 then Some ((h, mi, se), s) else None)"

text \<open>Modelled from the spec: a time at the start of the text, with or without seconds.\<close>

definition scan_time :: "bool \<Rightarrow> ustr \<Rightarrow> ((nat \<times> nat \<times> nat) \<times> ustr) option" where
  "scan_time with_seconds s =
     (case scan_number 1 2 s of
        None \<Rightarrow> None
      | Some (h, s1) \<Rightarrow>
          (case scan_lit (ascii '':'') s1 of
             None \<Rightarrow> None
           | Some s2 \<Rightarrow>
               (case scan_number 2 2 s2 of
                  None \<Rightarrow> None
                | Some (mi, s3) \<Rightarrow>
                    if with_seconds
                    then (case scan_lit (ascii '':'') s3 of
                            None \<Rightarrow> None
                          | Some s4 \<Rightarrow>
                              (case scan_number 2 2 s4 of
                                 None \<Rightarrow> None
                               | Some (se, s5) \<Rightarrow> clock h mi se s5))
                    else clock h mi 0 s3)))"

text \<open>Modelled from the spec: the sender is what stands before the first \<^verbatim>\<open>": "\<close> after
  the timestamp; a line without that delimiter is a system line, without a sender.\<close>

fun split_sender :: "ustr \<Rightarrow> ustr \<Rightarrow> (ustr \<times> ustr) option" where
  "split_sender acc [] = None"
| "split_sender acc (c # cs) =
     (if startswith (c # cs) (ascii '': '') then Some (rev acc, drop 2 (c # cs))
      else split_sender (c # acc) cs)"

text \<open>Modelled from the spec: the HeaderMatch of a decoded date and time and the rest of the
  line; a system line has no sender.\<close>

definition header_of :: "(nat \<times> nat \<times> nat) \<Rightarrow> (nat \<times> nat \<times> nat) \<Rightarrow> ustr \<Rightarrow> header_match"
  where
  "header_of d t rest =
     (case d of (y, m, dd) \<Rightarrow> case t of (h, mi, se) \<Rightarrow>
        (let ts = \<lparr>year = y, month = m, day = dd, hour = h, minute = mi, second = se\<rparr>
         in case split_sender [] rest of
              Some (name, msg) \<Rightarrow> \<lparr>h_stamp = ts, h_sender = Some name, h_rest = msg\<rparr>
            | None \<Rightarrow> \<lparr>h_stamp = ts, h_sender = None, h_rest = rest\<rparr>))"

text \<open>Modelled from the spec: the grammars \<^verbatim>\<open>M/D/YY, H:MM - Sender: message\<close> and
  \<^verbatim>\<open>[D/MM/YY, H:MM:SS] Sender: message\<close>.\<close>

definition decode_dash :: "date_order \<Rightarrow> ustr \<Rightarrow> header_match option" where
  "decode_dash ord s =
     (case scan_date ord s of
        None \<Rightarrow> None
      | Some (d, s1) \<Rightarrow>
          (case scan_lit (ascii '', '') s1 of
             None \<Rightarrow> None
           | Some s2 \<Rightarrow>
               (case scan_time False s2 of
                  None \<Rightarrow> None
                | Some (t, s3) \<Rightarrow>
                    (case scan_lit (ascii '' - '') s3 of
                       None \<Rightarrow> None
                     | Some rest \<Rightarrow> Some (header_of d t rest)))))"

text \<open>Modelled from the spec: the grammar \<^verbatim>\<open>[D/MM/YY, H:MM:SS] Sender: message\<close>.\<close>

definition decode_bracket :: "date_order \<Rightarrow> ustr \<Rightarrow> header_match option" where
  "decode_bracket ord s =
     (case scan_lit (ascii ''['') s of
        None \<Rightarrow> None
      | Some s0 \<Rightarrow>
          (case scan_date ord s0 of
             None \<Rightarrow> None
           | Some (d, s1) \<Rightarrow>
               (case scan_lit (ascii '', '') s1 of
                  None \<Rightarrow> None
                | Some s2 \<Rightarrow>
                    (case scan_time True s2 of
                       None \<Rightarrow> None
                     | Some (t, s3) \<Rightarrow>
                         (case scan_lit (ascii ''] '') s3 of
                            None \<Rightarrow> None
                          | Some rest \<Rightarrow> Some (header_of d t rest))))))"

text \<open>Modelled from the spec: decoding a line with one grammar.\<close>

definition decode_with :: "grammar \<Rightarrow> date_order \<Rightarrow> ustr \<Rightarrow> header_match option" where
  "decode_with g ord s =
     (case g of DashGrammar \<Rightarrow> decode_dash ord s | BracketGrammar \<Rightarrow> decode_bracket ord s)"

text \<open>Modelled from the spec: the enabled grammars are tried in a fixed priority order;
  the first that decodes the line gives the HeaderMatch, and a line none decodes is not
  a header.\<close>

fun first_match :: "grammar list \<Rightarrow> date_order \<Rightarrow> ustr \<Rightarrow> header_match option" where
  "first_match [] ord s = None"
| "first_match (g # gs) ord s =
     (case decode_with g ord s of Some h \<Rightarrow> Some h | None \<Rightarrow> first_match gs ord s)"

text \<open>Modelled from the spec: the header decoder: the enabled grammars, in the fixed order dash
  grammar, bracket grammar.\<close>

definition decode_header :: "config \<Rightarrow> ustr \<Rightarrow> header_match option" where
  "decode_header cfg s =
     first_match (filter (\<lambda>g. g \<in> set (enabled cfg)) [DashGrammar, BracketGrammar])
       (field_order cfg) s"

subsection \<open>Line classifier and record assembler\<close>

text \<open>Modelled from the spec: the lines of the text, split at each newline.\<close>

fun lines_from :: "ustr \<Rightarrow> ustr \<Rightarrow> ustr list" where
  "lines_from cur [] = [rev cur]"
| "lines_from cur (c # cs) =
     (if c = 10 then rev cur # lines_from [] cs else lines_from (c # cur) cs)"

text \<open>Modelled from the spec: the lines of the whole text.\<close>

definition split_lines :: "ustr \<Rightarrow> ustr list" where
  "split_lines s = lines_from [] s"

text \<open>Modelled from the spec: the content classification, applied once to the assembled
  body (section 4.3). A record of the reserved sender is a SystemNotice "regardless of
  body content" (sections 4.2, 4.3 and 8: every sender-less header line is one); of the
  other records, Media goes before LinkBearing, and LinkBearing before Text.\<close>

definition classify :: "ustr \<Rightarrow> ustr \<Rightarrow> kind" where
  "classify who text =
     (if who = system_sender then SystemNotice
      else if py_strip text = ascii ''<Media omitted>'' then Media
      else if contains text (ascii ''http://'') \<or> contains text (ascii ''https://'')
      then LinkBearing
      else Text)"

text \<open>Modelled from the spec: the assembler holds the record that is open, the records
  emitted so far, and the count of skipped lines. A header finalizes the open record and
  opens a new one; a continuation line is appended, after a newline, to the open record,
  or counted as skipped when none is open; the end of the input finalizes the last
  record.\<close>

record assembler =
  opened :: "(timestamp \<times> ustr \<times> ustr) option"
  emitted :: "chat_record list"
  skipped :: nat

text \<open>Modelled from the spec: finalizing the open record, if any: its body is classified.\<close>

definition finalize :: "(timestamp \<times> ustr \<times> ustr) option \<Rightarrow> chat_record list" where
  "finalize r =
     (case r of
        None \<Rightarrow> []
      | Some (ts, who, text) \<Rightarrow>
          [\<lparr>timestamp = ts, sender = who, body = text, kind = classify who text\<rparr>])"

text \<open>Modelled from the spec: one line through the line classifier and the assembler.\<close>

definition feed :: "config \<Rightarrow> assembler \<Rightarrow> ustr \<Rightarrow> assembler" where
  "feed cfg a line =
     (case decode_header cfg line of
        Some h \<Rightarrow>
          \<lparr>opened = Some (h_stamp h,
                           (case h_sender h of Some n \<Rightarrow> n | None \<Rightarrow> system_sender),
                           h_rest h),
           emitted = emitted a @ finalize (opened a),
           skipped = skipped a\<rparr>
      | None \<Rightarrow>
          (case opened a of
             Some (ts, who, text) \<Rightarrow> a\<lparr>opened := Some (ts, who, text @ 10 # line)\<rparr>
           | None \<Rightarrow> a\<lparr>skipped := skipped a + 1\<rparr>))"

text \<open>Modelled from the spec: a parse call: the lines are fed in order to a fresh assembler, and
  the result is the record sequence and the count of skipped lines.\<close>

definition parse :: "config \<Rightarrow> ustr \<Rightarrow> chat_record list \<times> nat" where
  "parse cfg text =
     (let a = foldl (feed cfg) \<lparr>opened = None, emitted = [], skipped = 0\<rparr> (split_lines text)
      in (emitted a @ finalize (opened a), skipped a))"

text \<open>Modelled from the spec: the month-first configuration, both grammars enabled.\<close>

definition month_first :: config where
  "month_first = \<lparr>field_order = MonthFirst, enabled = [DashGrammar, BracketGrammar]\<rparr>"


text \<open>Modelled from the spec: the input of the concrete scenario of section 8, three lines.\<close>

definition scenario :: ustr where
  "scenario = ascii ''12/1/23, 10:05 - Alice: Hello there'' @ 10 #
              ascii ''nice to meet you'' @ 10 # ascii ''12/1/23, 10:06 - Bob: Hi!''"

section \<open>Notions the properties are stated with\<close>

text \<open>The rows whose date pandas can coerce, and the table made of them: what the
  claims call the records that are kept.\<close>

definition coerced :: "env \<Rightarrow> dataframe \<Rightarrow> row \<Rightarrow> int option" where
  "coerced e df r = to_datetime e (col df ''date'') (cell_of r ''date'')"

definition kept_rows :: "env \<Rightarrow> dataframe \<Rightarrow> row list" where
  "kept_rows e df = filter (\<lambda>r. coerced e df r \<noteq> None) (rows df)"

definition kept_table :: "env \<Rightarrow> dataframe \<Rightarrow> dataframe" where
  "kept_table e df =
     \<lparr>columns = columns df,
      rows = map (\<lambda>r. put ''date'' (CTime (the (coerced e df r))) r) (kept_rows e df)\<rparr>"

definition warning_event :: "event \<Rightarrow> bool" where
  "warning_event ev = (case ev of Warning m \<Rightarrow> True | _ \<Rightarrow> False)"

definition metric_event :: "event \<Rightarrow> bool" where
  "metric_event ev = (case ev of Metric l n \<Rightarrow> True | _ \<Rightarrow> False)"

definition parser_call :: "event \<Rightarrow> bool" where
  "parser_call ev = (case ev of ParserCall t \<Rightarrow> True | _ \<Rightarrow> False)"

definition user_chart :: "event \<Rightarrow> bool" where
  "user_chart ev =
     (case ev of
        Chart l d \<Rightarrow> l = ''User Activity Over Time'' \<or> l = ''Messages Distribution by User''
      | _ \<Rightarrow> False)"

text \<open>The events of the chart sections: subheaders, charts, and the one number they
  write, the total of emojis (line 148).\<close>

definition chart_event :: "event \<Rightarrow> bool" where
  "chart_event ev = (case ev of Subheader l \<Rightarrow> True | Chart l d \<Rightarrow> True
                     | WriteText l n \<Rightarrow> l = ''Total Emojis Used'' | _ \<Rightarrow> False)"


definition derived_columns :: "string list" where
  "derived_columns = [''day_name'', ''hour'', ''month'', ''msg_length'', ''day'']"

text \<open>What a chart section may do: emit chart events, and add derived columns.\<close>

definition extends :: "dataframe \<Rightarrow> dataframe \<Rightarrow> bool" where
  "extends df df' =
     (length (rows df') = length (rows df)
      \<and> (\<forall>k. k \<notin> set derived_columns \<longrightarrow> col df' k = col df k)
      \<and> set (columns df) \<subseteq> set (columns df')
      \<and> set (columns df') \<subseteq> set (columns df) \<union> set derived_columns)"

definition tidy :: "dataframe \<Rightarrow> section_result \<Rightarrow> bool" where
  "tidy df res = (case res of (evs, r, df') \<Rightarrow> list_all chart_event evs \<and> extends df df')"

definition shown_statistics :: "env \<Rightarrow> dataframe \<Rightarrow> ustr list \<Rightarrow> event list" where
  "shown_statistics e df msgs =
     [Metric ''Messages'' (length (kept_rows e df)),
      Metric ''Words'' (total_words msgs),
      Metric ''Media Shared'' (total_media msgs),
      Metric ''Links Shared'' (total_links msgs)]"

definition error_event :: "event \<Rightarrow> bool" where
  "error_event ev = (case ev of ErrorMsg err \<Rightarrow> True | _ \<Rightarrow> False)"

text \<open>
  The specification's words for the two content tests, to compare with the page's own
  \<open>is_media\<close> and \<open>is_link\<close>. Media: the body "exactly equals, or contains as its
  entire informative content" the placeholder; read here as: the body is the placeholder
  up to whitespace around it (\<^verbatim>\<open>str.strip\<close>). Link: the body "contains a substring
  matching a URL pattern (\<^verbatim>\<open>http://\<close> or \<^verbatim>\<open>https://\<close> prefix)".
\<close>

definition entirely_placeholder :: "ustr \<Rightarrow> bool" where
  "entirely_placeholder msg = (py_strip msg = media_placeholder)"




section \<open>Concrete inputs\<close>

text \<open>An environment in which nothing is uploaded, a session in which the admin has
  logged in, and an upload whose parsed table has one row with a date pandas cannot
  coerce.\<close>

definition idle_env :: env where
  "idle_env =
     \<lparr>uploaded_file = None, preprocess_chat = (\<lambda>t. Inr PNone),
      to_datetime = (\<lambda>cs c. None), sent_btn = False, tox_btn = False,
      dt_day_name = (\<lambda>t. CNull), dt_hour = (\<lambda>t. CNull), dt_month = (\<lambda>t. CNull),
      dt_date = (\<lambda>t. CNull), str_lower = (\<lambda>s. s), is_emoji = (\<lambda>c. False),
      render = (\<lambda>l d. None)\<rparr>"

definition logged_session :: session where
  "logged_session = [''admin_logged_in'' \<mapsto> PBool True]"

definition sample_bytes :: string where
  "sample_bytes = ''12/1/23, 10:05 - Alice: Hello there''"

definition sample_table :: dataframe where
  "sample_table =
     \<lparr>columns = [''date'', ''user'', ''message''],
      rows = [[(''date'', CStr (ascii ''12/1/23, 10:05'')), (''user'', CStr (ascii ''Alice'')),
               (''message'', CStr (ascii ''Hello there''))],
              [(''date'', CStr (ascii ''soon'')), (''user'', CStr (ascii ''Bob'')),
               (''message'', CStr (ascii ''see https://example.com''))]]\<rparr>"

definition sample_coerce :: "cell list \<Rightarrow> cell \<Rightarrow> int option" where
  "sample_coerce cs c =
     (case c of
        CStr s \<Rightarrow> if s = ascii ''12/1/23, 10:05'' then Some 1701425100 else None
      | CTime t \<Rightarrow> Some t
      | _ \<Rightarrow> None)"

definition sample_env :: env where
  "sample_env =
     idle_env\<lparr>uploaded_file := Some sample_bytes,
              preprocess_chat := (\<lambda>t. Inr (PFrame sample_table)),
              to_datetime := sample_coerce\<rparr>"

text \<open>A parser whose table has the four columns of the specification; a parser that
  returns the table of the one message of the upload, with the columns the page reads,
  together with a count of skipped lines; an upload that is not UTF-8.\<close>

definition spec_columns_table :: dataframe where
  "spec_columns_table =
     \<lparr>columns = [''timestamp'', ''sender'', ''body'', ''kind''],
      rows = [[(''timestamp'', CTime 1701425100), (''sender'', CStr (ascii ''Alice'')),
               (''body'', CStr (ascii ''Hello there'')), (''kind'', CStr (ascii ''Text''))]]\<rparr>"

definition spec_columns_env :: env where
  "spec_columns_env = sample_env\<lparr>preprocess_chat := (\<lambda>t. Inr (PFrame spec_columns_table))\<rparr>"














section \<open>Properties of the page\<close>

subsection \<open>Strings, tables and chart sections\<close>

lemma startswith_iff: "startswith s p \<longleftrightarrow> (\<exists>r. s = p @ r)"
  by (induction s p rule: startswith.induct) auto

lemma contains_iff: "contains s p \<longleftrightarrow> (\<exists>a b. s = a @ p @ b)"
proof (induction s)
  case Nil
  then show ?case by auto
next
  case (Cons c cs)
  show ?case
  proof
    assume "contains (c # cs) p"
    then consider "startswith (c # cs) p" | "contains cs p" by auto
    then show "\<exists>a b. c # cs = a @ p @ b"
    proof cases
      case 1
      then obtain r where "c # cs = p @ r" by (auto simp: startswith_iff)
      then have "c # cs = [] @ p @ r" by simp
      then show ?thesis by blast
    next
      case 2
      with Cons obtain a b where "cs = a @ p @ b" by auto
      then have "c # cs = (c # a) @ p @ b" by simp
      then show ?thesis by blast
    qed
  next
    assume "\<exists>a b. c # cs = a @ p @ b"
    then obtain a b where ab: "c # cs = a @ p @ b" by auto
    show "contains (c # cs) p"
    proof (cases a)
      case Nil
      with ab have "startswith (c # cs) p" by (auto simp: startswith_iff)
      then show ?thesis by simp
    next
      case (Cons x a')
      with ab have "cs = a' @ p @ b" by simp
      with Cons.IH have "contains cs p" by blast
      then show ?thesis by simp
    qed
  qed
qed

lemma cell_of_put: "cell_of (put c v r) k = (if k = c then v else cell_of r k)"
  by (induction c v r rule: put.induct) (auto simp: cell_of_def)

lemma rows_setcol: "rows (setcol df c f) = map (\<lambda>r. put c (f r) r) (rows df)"
  by (simp add: setcol_def)

lemma col_setcol: "col (setcol df c f) k = (if k = c then map f (rows df) else col df k)"
  by (simp add: col_def setcol_def cell_of_put comp_def)

lemma columns_setcol: "set (columns (setcol df c f)) = insert c (set (columns df))"
  by (auto simp: setcol_def)

lemma extends_refl: "extends df df"
  by (simp add: extends_def)

lemma extends_trans: "extends a b \<Longrightarrow> extends b c \<Longrightarrow> extends a c"
  by (auto simp: extends_def)

lemma extends_setcol: "c \<in> set derived_columns \<Longrightarrow> extends df (setcol df c f)"
  by (auto simp: extends_def col_setcol columns_setcol rows_setcol)

lemma tidy_draw: "extends df0 df \<Longrightarrow> tidy df0 (draw e l d df)"
  by (simp add: tidy_def draw_def chart_event_def split: option.splits)

lemma tidy_date_section:
  "new \<in> set derived_columns \<Longrightarrow> tidy df (date_section e l new f df)"
  by (auto simp: date_section_def Let_def tidy_draw extends_setcol split: sum.splits)
     (simp add: tidy_def chart_event_def extends_refl)


lemma tidy_fail: "extends df0 df \<Longrightarrow> tidy df0 ([Subheader l], r, df)"
  by (simp add: tidy_def chart_event_def)

lemma tidy_length_section: "tidy df (length_section e df)"
  by (auto simp: length_section_def Let_def tidy_draw tidy_fail extends_setcol extends_refl
        derived_columns_def split: sum.splits)

lemma tidy_daily_section: "tidy df (daily_section e df)"
  by (auto simp: daily_section_def Let_def tidy_draw tidy_fail extends_refl split: sum.splits)

lemma tidy_heatmap_section: "tidy df (heatmap_section e df)"
  by (auto simp: heatmap_section_def Let_def tidy_draw tidy_fail extends_refl split: sum.splits)

lemma tidy_words_section: "tidy df (words_section e df)"
  by (auto simp: words_section_def Let_def tidy_draw tidy_fail extends_refl split: sum.splits)

lemma tidy_user_activity_section: "tidy df (user_activity_section e df)"
  by (auto simp: user_activity_section_def Let_def tidy_draw tidy_fail extends_setcol
        extends_refl derived_columns_def split: sum.splits)

lemma tidy_user_share_section: "tidy df (user_share_section e df)"
  by (auto simp: user_share_section_def Let_def tidy_draw tidy_fail extends_refl
        split: sum.splits)

lemma tidy_cloud_section: "tidy df (cloud_section e df)"
  by (auto simp: cloud_section_def Let_def tidy_draw tidy_fail extends_refl split: sum.splits)

lemma tidy_emoji_section: "tidy df (emoji_section e df)"
  by (auto simp: emoji_section_def Let_def tidy_def chart_event_def extends_refl
        split: sum.splits option.splits)

lemma tidy_run_sections:
  assumes "\<And>f d. f \<in> set fs \<Longrightarrow> tidy d (f d)"
  shows "tidy df (run_sections fs df)"
  using assms
proof (induction fs arbitrary: df)
  case Nil
  then show ?case by (simp add: tidy_def extends_refl)
next
  case (Cons f fs)
  obtain evs r df' where f: "f df = (evs, r, df')" by (cases "f df") auto
  have t1: "tidy df (f df)" using Cons.prems by simp
  show ?case
  proof (cases r)
    case (Some err)
    with f t1 show ?thesis by simp
  next
    case None
    obtain evs' r' df'' where rest: "run_sections fs df' = (evs', r', df'')"
      by (cases "run_sections fs df'") auto
    have t2: "tidy df' (run_sections fs df')" using Cons by simp
    from t1 t2 f rest have "list_all chart_event (evs @ evs')" "extends df df''"
      by (auto simp: tidy_def intro: extends_trans)
    with f None rest show ?thesis by (simp add: tidy_def)
  qed
qed

lemma tidy_charts: "tidy df (charts e df)"
  unfolding charts_def
  by (rule tidy_run_sections)
     (auto simp: tidy_date_section tidy_length_section tidy_daily_section tidy_heatmap_section
        tidy_words_section tidy_user_activity_section tidy_user_share_section
        tidy_cloud_section tidy_emoji_section derived_columns_def)


lemma load_table_kept:
  assumes "preprocess_chat e chat_data = Inr (PFrame df)" and "''date'' \<in> set (columns df)"
  shows "load_table e chat_data = Inr (kept_table e df)"
proof -
  let ?f = "\<lambda>r. case coerced e df r of Some t \<Rightarrow> CTime t | None \<Rightarrow> CNull"
  have "filter (\<lambda>r. cell_of r ''date'' \<noteq> CNull) (map (\<lambda>r. put ''date'' (?f r) r) (rows df))
        = map (\<lambda>r. put ''date'' (CTime (the (coerced e df r))) r) (kept_rows e df)"
    unfolding kept_rows_def
    by (induction "rows df" arbitrary: df) (auto simp: filter_map comp_def cell_of_put
          split: option.splits intro!: map_cong filter_cong) 
  then show ?thesis
    using assms
    by (simp add: load_table_def getcol_def coerce_dates_def dropna_def setcol_def
          kept_table_def coerced_def)
qed


lemma col_kept_table:
  "col (kept_table e df) k =
     (if k = ''date'' then map (\<lambda>r. CTime (the (coerced e df r))) (kept_rows e df)
      else map (\<lambda>r. cell_of r k) (kept_rows e df))"
  by (simp add: col_def kept_table_def cell_of_put comp_def)

lemma chart_events_quiet:
  "list_all chart_event evs \<Longrightarrow> filter warning_event evs = [] \<and> filter metric_event evs = []"
  by (induction evs) (auto simp: chart_event_def warning_event_def metric_event_def
        split: event.splits)

lemma redirect_quiet:
  "filter warning_event (fst (redirect s)) = [] \<and> filter metric_event (fst (redirect s)) = []"
  by (auto simp: redirect_def warning_event_def metric_event_def split: sum.splits bool.splits)

subsection \<open>The page, step by step\<close>

lemma page_logged_in:
  assumes "admin_logged_in s = Inr True" and "uploaded_file e = Some bytes"
    and "analysis e bytes s = (s', ev, r)"
  shows "whatsapp_chat_analyzer e s =
     \<lparr>state = s',
      trace = [Title ''WhatsApp Chat Analyzer'',
               FileUploader ''Upload your WhatsApp chat file (.txt)'']
              @ ev @ (case r of None \<Rightarrow> [] | Some err \<Rightarrow> [ErrorMsg err])
              @ fst (redirect s'),
      uncaught = snd (redirect s')\<rparr>"
proof (cases r)
  case None
  with assms show ?thesis
    by (simp add: whatsapp_chat_analyzer_def case_prod_beta)
next
  case (Some err)
  with assms show ?thesis
    by (simp add: whatsapp_chat_analyzer_def case_prod_beta)
qed

lemma analysis_stats_fail:
  assumes "decode_utf8 bytes = Some chat_data" and "load_table e chat_data = Inr T"
    and "basic_statistics T = Inl err"
  shows "analysis e bytes s =
     (s(''chat_df'' \<mapsto> PFrame T),
      [ParserCall chat_data, Subheader ''Chat Preview'', DataframeView (head 20 T),
       Subheader ''Basic Statistics''], Some err)"
  using assms by (simp add: analysis_def)

lemma analysis_charts:
  assumes "decode_utf8 bytes = Some chat_data" and "load_table e chat_data = Inr T"
    and "basic_statistics T = Inr (m, w, md, l)" and "charts e T = (ev3, r, T')"
  shows "analysis e bytes s =
     ((buttons e (s(''chat_df'' \<mapsto> PFrame T)))(''chat_df'' \<mapsto> PFrame T'),
      [ParserCall chat_data, Subheader ''Chat Preview'', DataframeView (head 20 T),
       Subheader ''Basic Statistics'', Metric ''Messages'' m, Metric ''Words'' w,
       Metric ''Media Shared'' md, Metric ''Links Shared'' l,
       Subheader ''More Analysis Options'', Button ''sent_btn'', Button ''tox_btn'']
      @ ev3, r)"
  using assms by (simp add: analysis_def Let_def)

lemma basic_statistics_kept:
  assumes "''message'' \<in> set (columns df)"
    and "all_str AttributeError (map (\<lambda>r. cell_of r ''message'') (kept_rows e df)) = Inr msgs"
  shows "basic_statistics (kept_table e df) =
     Inr (length (kept_rows e df), total_words msgs, total_media msgs, total_links msgs)"
  using assms
  by (simp add: basic_statistics_def getcol_def col_kept_table) (simp add: kept_table_def)


lemma trace_quiet:
  assumes "list_all chart_event ev3"
  shows "filter warning_event
           ([Title a, FileUploader b] @ [ParserCall c, Subheader d, DataframeView T,
             Subheader f] @ stats @ [Subheader g, Button h, Button i] @ ev3
            @ (case r of None \<Rightarrow> [] | Some err \<Rightarrow> [ErrorMsg err]) @ fst (redirect s'))
         = filter warning_event stats"
    and "filter metric_event
           ([Title a, FileUploader b] @ [ParserCall c, Subheader d, DataframeView T,
             Subheader f] @ stats @ [Subheader g, Button h, Button i] @ ev3
            @ (case r of None \<Rightarrow> [] | Some err \<Rightarrow> [ErrorMsg err]) @ fst (redirect s'))
         = filter metric_event stats"
  using chart_events_quiet [OF assms] redirect_quiet [of s']
  by (auto simp: warning_event_def metric_event_def split: option.splits)

subsection \<open>The ways the body of the try ends\<close>

lemma analysis_decode_fail:
  "decode_utf8 bytes = None \<Longrightarrow> analysis e bytes s = (s, [], Some UnicodeDecodeError)"
  by (simp add: analysis_def)

lemma analysis_load_fail:
  "decode_utf8 bytes = Some chat_data \<Longrightarrow> load_table e chat_data = Inl err
   \<Longrightarrow> analysis e bytes s = (s, [ParserCall chat_data], Some err)"
  by (simp add: analysis_def)


lemma load_table_no_date:
  "preprocess_chat e chat_data = Inr (PFrame df) \<Longrightarrow> ''date'' \<notin> set (columns df)
   \<Longrightarrow> load_table e chat_data = Inl (KeyError ''date'')"
  by (simp add: load_table_def getcol_def)

lemma load_table_no_table:
  "preprocess_chat e chat_data = Inr obj \<Longrightarrow> (\<And>df. obj \<noteq> PFrame df)
   \<Longrightarrow> load_table e chat_data = Inl TypeError"
  by (cases obj) (auto simp: load_table_def)

lemma load_table_Inr:
  assumes "load_table e chat_data = Inr T"
  shows "\<exists>df. preprocess_chat e chat_data = Inr (PFrame df) \<and> ''date'' \<in> set (columns df)
              \<and> T = kept_table e df"
proof -
  from assms obtain obj where obj: "preprocess_chat e chat_data = Inr obj"
    by (auto simp: load_table_def split: sum.splits)
  show ?thesis
  proof (cases obj)
    case (PFrame df)
    show ?thesis
    proof (cases "''date'' \<in> set (columns df)")
      case True
      with obj PFrame load_table_kept [of e chat_data df] assms show ?thesis by simp
    next
      case False
      with obj PFrame load_table_no_date [of e chat_data df] assms show ?thesis by simp
    qed
  qed (use obj assms load_table_no_table [of e chat_data obj] in simp_all)
qed

text \<open>The shapes of the result of the body of the try.\<close>

lemma analysis_shapes:
  obtains (undecodable) "decode_utf8 bytes = None"
      "analysis e bytes s = (s, [], Some UnicodeDecodeError)"
  | (rejected) chat_data err where "decode_utf8 bytes = Some chat_data"
      "load_table e chat_data = Inl err"
      "analysis e bytes s = (s, [ParserCall chat_data], Some err)"
  | (no_statistics) chat_data df err where "decode_utf8 bytes = Some chat_data"
      "preprocess_chat e chat_data = Inr (PFrame df)" "''date'' \<in> set (columns df)"
      "basic_statistics (kept_table e df) = Inl err"
      "analysis e bytes s =
         (s(''chat_df'' \<mapsto> PFrame (kept_table e df)),
          [ParserCall chat_data, Subheader ''Chat Preview'',
           DataframeView (head 20 (kept_table e df)), Subheader ''Basic Statistics''],
          Some err)"
  | (shown) chat_data df m w md l ev3 r T' where "decode_utf8 bytes = Some chat_data"
      "preprocess_chat e chat_data = Inr (PFrame df)" "''date'' \<in> set (columns df)"
      "basic_statistics (kept_table e df) = Inr (m, w, md, l)"
      "charts e (kept_table e df) = (ev3, r, T')"
      "analysis e bytes s =
         ((buttons e (s(''chat_df'' \<mapsto> PFrame (kept_table e df))))
            (''chat_df'' \<mapsto> PFrame T'),
          [ParserCall chat_data, Subheader ''Chat Preview'',
           DataframeView (head 20 (kept_table e df)), Subheader ''Basic Statistics'',
           Metric ''Messages'' m, Metric ''Words'' w, Metric ''Media Shared'' md,
           Metric ''Links Shared'' l, Subheader ''More Analysis Options'',
           Button ''sent_btn'', Button ''tox_btn''] @ ev3, r)"
proof (cases "decode_utf8 bytes")
  case None
  with undecodable analysis_decode_fail show ?thesis by blast
next
  case (Some chat_data)
  show ?thesis
  proof (cases "load_table e chat_data")
    case (Inl err)
    with Some rejected analysis_load_fail show ?thesis by blast
  next
    case (Inr T)
    then obtain df where df: "preprocess_chat e chat_data = Inr (PFrame df)"
      "''date'' \<in> set (columns df)" and T: "T = kept_table e df"
      using load_table_Inr by blast
    show ?thesis
    proof (cases "basic_statistics T")
      case (Inl err)
      from analysis_stats_fail [OF Some Inr Inl] df T Some Inl no_statistics
      show ?thesis by blast
    next
      case st: (Inr q)
      obtain m w md l where q: "q = (m, w, md, l)" by (cases q) auto
      obtain ev3 r T' where ch: "charts e T = (ev3, r, T')" by (cases "charts e T") auto
      from analysis_charts [OF Some Inr st [unfolded q] ch] df T Some st q ch shown
      show ?thesis by blast
    qed
  qed
qed


subsection \<open>The charts by user need the column user\<close>

lemma draw_events:
  "fst (draw e l d df) = [Subheader l] \<or> fst (draw e l d df) = [Subheader l, Chart l d]"
  by (simp add: draw_def split: option.splits)

lemma draw_no_user_chart:
  "l \<noteq> ''User Activity Over Time'' \<Longrightarrow> l \<noteq> ''Messages Distribution by User''
   \<Longrightarrow> filter user_chart (fst (draw e l d df)) = []"
  using draw_events [of e l d df] by (auto simp: user_chart_def)

lemma date_section_no_user_chart:
  "l \<noteq> ''User Activity Over Time'' \<Longrightarrow> l \<noteq> ''Messages Distribution by User''
   \<Longrightarrow> filter user_chart (fst (date_section e l new f df)) = []"
  by (auto simp: date_section_def Let_def draw_no_user_chart user_chart_def split: sum.splits)

lemma length_section_no_user_chart: "filter user_chart (fst (length_section e df)) = []"
  by (auto simp: length_section_def Let_def draw_no_user_chart user_chart_def
        split: sum.splits)

lemma daily_section_no_user_chart: "filter user_chart (fst (daily_section e df)) = []"
  by (auto simp: daily_section_def Let_def draw_no_user_chart user_chart_def
        split: sum.splits)

lemma heatmap_section_no_user_chart: "filter user_chart (fst (heatmap_section e df)) = []"
  by (auto simp: heatmap_section_def Let_def draw_no_user_chart user_chart_def
        split: sum.splits)

lemma words_section_no_user_chart: "filter user_chart (fst (words_section e df)) = []"
  by (auto simp: words_section_def Let_def draw_no_user_chart user_chart_def
        split: sum.splits)

lemma cloud_section_no_user_chart: "filter user_chart (fst (cloud_section e df)) = []"
  by (auto simp: cloud_section_def Let_def draw_no_user_chart user_chart_def
        split: sum.splits)

lemma emoji_section_no_user_chart: "filter user_chart (fst (emoji_section e df)) = []"
  by (auto simp: emoji_section_def Let_def user_chart_def split: sum.splits option.splits)

lemma user_activity_section_needs_user:
  "''user'' \<notin> set (columns df) \<Longrightarrow> filter user_chart (fst (user_activity_section e df)) = []"
  by (auto simp: user_activity_section_def Let_def getcol_def columns_setcol user_chart_def
        split: sum.splits)

lemma user_share_section_needs_user:
  "''user'' \<notin> set (columns df) \<Longrightarrow> filter user_chart (fst (user_share_section e df)) = []"
  by (auto simp: user_share_section_def Let_def getcol_def user_chart_def split: sum.splits)

lemma extends_no_user:
  "extends df df' \<Longrightarrow> ''user'' \<notin> set (columns df) \<Longrightarrow> ''user'' \<notin> set (columns df')"
  by (auto simp: extends_def derived_columns_def)

lemma run_sections_needs_user:
  assumes "\<And>f d. f \<in> set fs \<Longrightarrow> tidy d (f d)"
    and "\<And>f d. f \<in> set fs \<Longrightarrow> ''user'' \<notin> set (columns d)
           \<Longrightarrow> filter user_chart (fst (f d)) = []"
    and "''user'' \<notin> set (columns df)"
  shows "filter user_chart (fst (run_sections fs df)) = []"
  using assms
proof (induction fs arbitrary: df)
  case Nil
  then show ?case by simp
next
  case (Cons f fs)
  obtain evs r df' where f: "f df = (evs, r, df')" by (cases "f df") auto
  have "tidy df (f df)" using Cons.prems(1) by simp
  with f have ext: "extends df df'" by (simp add: tidy_def)
  have here: "filter user_chart evs = []"
    using Cons.prems(2) [of f df] Cons.prems(3) f by simp
  show ?case
  proof (cases r)
    case (Some err)
    with f here show ?thesis by simp
  next
    case None
    have "filter user_chart (fst (run_sections fs df')) = []"
      using Cons.prems extends_no_user [OF ext] by (intro Cons.IH) auto
    with f None here show ?thesis by (auto split: prod.splits)
  qed
qed

lemma charts_need_user:
  assumes "''user'' \<notin> set (columns df)"
  shows "filter user_chart (fst (charts e df)) = []"
  unfolding charts_def
proof (rule run_sections_needs_user [OF _ _ assms], goal_cases)
  case (1 f d)
  then show ?case
    by (auto simp: tidy_date_section tidy_length_section tidy_daily_section
          tidy_heatmap_section tidy_words_section tidy_user_activity_section
          tidy_user_share_section tidy_cloud_section tidy_emoji_section derived_columns_def)
next
  case (2 f d)
  then show ?case
    by (auto simp: date_section_no_user_chart length_section_no_user_chart
          daily_section_no_user_chart heatmap_section_no_user_chart
          words_section_no_user_chart cloud_section_no_user_chart
          emoji_section_no_user_chart user_activity_section_needs_user
          user_share_section_needs_user)
qed

subsection \<open>What every run of the page shows\<close>

lemma plain_events_quiet:
  "filter warning_event (fst (redirect s')) = []"
  "filter metric_event (fst (redirect s')) = []"
  "filter parser_call (fst (redirect s')) = []"
  "filter user_chart (fst (redirect s')) = []"
  by (auto simp: redirect_def warning_event_def metric_event_def parser_call_def
        user_chart_def split: sum.splits bool.splits)



subsection \<open>Numbers, parser calls and the session state in every run\<close>














subsection \<open>The content tests of lines 45 and 46\<close>

lemma contains_set: "contains s p \<Longrightarrow> set p \<subseteq> set s"
  by (auto simp: contains_iff)


lemma is_media_iff: "is_media msg \<longleftrightarrow> (\<exists>a b. msg = a @ media_placeholder @ b)"
  by (simp add: is_media_def contains_iff)

lemma is_link_colon: "is_link msg \<Longrightarrow> 58 \<in> set msg"
proof -
  assume "is_link msg"
  then have "set (ascii ''http://'') \<subseteq> set msg \<or> set (ascii ''https://'') \<subseteq> set msg"
    by (auto simp: is_link_def dest: contains_set)
  then show ?thesis by (auto simp: ascii_def)
qed

lemma py_strip_shape:
  "\<exists>a b. s = a @ py_strip s @ b \<and> list_all is_space a \<and> list_all is_space b"
proof -
  let ?t = "dropWhile is_space s"
  have s: "s = takeWhile is_space s @ ?t" by simp
  have "rev (dropWhile is_space (rev ?t)) @ rev (takeWhile is_space (rev ?t))
        = rev (takeWhile is_space (rev ?t) @ dropWhile is_space (rev ?t))"
    by (simp only: rev_append)
  also have "\<dots> = ?t" by simp
  finally have t: "?t = py_strip s @ rev (takeWhile is_space (rev ?t))"
    by (simp add: py_strip_def)
  have "s = takeWhile is_space s @ py_strip s @ rev (takeWhile is_space (rev ?t))"
    using s t by metis
  moreover have "list_all is_space (takeWhile is_space s)"
    by (simp add: list_all_iff) (meson set_takeWhileD)
  moreover have "list_all is_space (rev (takeWhile is_space (rev ?t)))"
    by (simp add: list_all_iff) (meson set_takeWhileD)
  ultimately show ?thesis by blast
qed

lemma placeholder_media_not_link:
  assumes "entirely_placeholder msg"
  shows "is_media msg \<and> \<not> is_link msg"
proof -
  from py_strip_shape [of msg] assms obtain a b
    where msg: "msg = a @ media_placeholder @ b"
      and ws: "list_all is_space a" "list_all is_space b"
    by (auto simp: entirely_placeholder_def)
  have "is_media msg" using msg by (auto simp: is_media_iff)
  moreover have "58 \<notin> set msg"
  proof
    assume "58 \<in> set msg"
    with msg consider "58 \<in> set a" | "58 \<in> set media_placeholder" | "58 \<in> set b" by auto
    then show False
    proof cases
      case 1
      with ws have "is_space 58" by (auto simp: list_all_iff)
      then show False by (simp add: is_space_def)
    next
      case 2
      then show False by (simp add: media_placeholder_def ascii_def)
    next
      case 3
      with ws have "is_space 58" by (auto simp: list_all_iff)
      then show False by (simp add: is_space_def)
    qed
  qed
  ultimately show ?thesis using is_link_colon by blast
qed



subsection \<open>Facts about the concrete inputs\<close>

lemma redirect_logged [simp]: "redirect logged_session = ([], None)"
  by (simp add: redirect_def logged_session_def session_get_def)

lemma sample_decodes: "decode_utf8 sample_bytes = Some (ascii sample_bytes)"
  by (simp add: decode_utf8_def sample_bytes_def ascii_def)

lemma logged_session_in: "admin_logged_in logged_session = Inr True"
  by (simp add: admin_logged_in_def logged_session_def session_get_def)

lemma chart_events_no_error: "list_all chart_event evs \<Longrightarrow> filter error_event evs = []"
  by (induction evs) (auto simp: chart_event_def error_event_def split: event.splits)



lemma basic_statistics_no_message:
  "''message'' \<notin> set (columns df)
   \<Longrightarrow> basic_statistics (kept_table e df) = Inl (KeyError ''message'')"
  by (simp add: basic_statistics_def getcol_def kept_table_def)

lemma sample_kept: "kept_table sample_env sample_table =
   \<lparr>columns = [''date'', ''user'', ''message''],
    rows = [[(''date'', CTime 1701425100), (''user'', CStr (ascii ''Alice'')),
               (''message'', CStr (ascii ''Hello there''))]]\<rparr>"
  by (simp add: kept_table_def kept_rows_def coerced_def sample_env_def sample_table_def
          sample_coerce_def idle_env_def col_def cell_of_def ascii_def)

lemma sample_env_fields:
  "render sample_env l d = None" "dt_day_name sample_env t = CNull"
  "dt_hour sample_env t = CNull" "dt_month sample_env t = CNull"
  "dt_date sample_env t = CNull" "str_lower sample_env m = m" "is_emoji sample_env c = False"
  "sent_btn sample_env = False" "tox_btn sample_env = False"
  by (simp_all add: sample_env_def idle_env_def)

lemma sample_charts_ok:
  "fst (snd (charts sample_env (kept_table sample_env sample_table))) = None"
  unfolding sample_kept
  by (simp add: charts_def date_section_def length_section_def daily_section_def
     heatmap_section_def words_section_def user_activity_section_def cloud_section_def
     user_share_section_def emoji_section_def draw_def getcol_def setcol_def col_def cell_of_def
     sample_env_fields Let_def on_time_def plain_text_def ascii_def py_split_def
     is_space_def stop_words_def)

lemma sample_upload: "uploaded_file sample_env = Some sample_bytes"
  by (simp add: sample_env_def)

lemma sample_parsed:
  "preprocess_chat sample_env (ascii sample_bytes) = Inr (PFrame sample_table)"
  by (simp add: sample_env_def)

lemma sample_kept_rows: "kept_rows sample_env sample_table = [hd (rows sample_table)]"
  by (simp add: kept_rows_def coerced_def sample_env_def sample_table_def
        sample_coerce_def idle_env_def col_def cell_of_def ascii_def)

lemma sample_messages:
  "all_str AttributeError
     (map (\<lambda>r. cell_of r ''message'') (kept_rows sample_env sample_table))
   = Inr [ascii ''Hello there'']"
  by (simp add: sample_kept_rows) (simp add: sample_table_def cell_of_def)

lemma sample_statistics:
  "shown_statistics sample_env sample_table [ascii ''Hello there'']
   = [Metric ''Messages'' 1, Metric ''Words'' 2, Metric ''Media Shared'' 0,
      Metric ''Links Shared'' 0]"
  by (simp add: shown_statistics_def sample_kept_rows total_words_def total_media_def
        total_links_def py_split_def is_space_def is_media_def is_link_def
        media_placeholder_def ascii_def)





section \<open>Properties of the parser of the specification\<close>

lemmas decoder_defs =
  decode_header_def decode_with_def decode_dash_def decode_bracket_def scan_date_def
  scan_number_def scan_lit_def is_digit_def number_of_def date_of_def days_in_month_def
  leap_year_def scan_time_def clock_def scan_meridiem_def header_of_def ascii_def

lemma scenario_lines:
  "split_lines scenario =
     [ascii ''12/1/23, 10:05 - Alice: Hello there'', ascii ''nice to meet you'',
      ascii ''12/1/23, 10:06 - Bob: Hi!'']"
  by (simp add: scenario_def split_lines_def ascii_def)

lemma scenario_line1:
  "decode_header month_first (ascii ''12/1/23, 10:05 - Alice: Hello there'') =
     Some \<lparr>h_stamp = \<lparr>year = 2023, month = 12, day = 1, hour = 10, minute = 5, second = 0\<rparr>,
           h_sender = Some (ascii ''Alice''), h_rest = ascii ''Hello there''\<rparr>"
  by (simp add: decoder_defs month_first_def)

lemma scenario_line2: "decode_header month_first (ascii ''nice to meet you'') = None"
  by (simp add: decoder_defs month_first_def)

lemma scenario_line3:
  "decode_header month_first (ascii ''12/1/23, 10:06 - Bob: Hi!'') =
     Some \<lparr>h_stamp = \<lparr>year = 2023, month = 12, day = 1, hour = 10, minute = 6, second = 0\<rparr>,
           h_sender = Some (ascii ''Bob''), h_rest = ascii ''Hi!''\<rparr>"
  by (simp add: decoder_defs month_first_def)

lemma scenario_kinds:
  "classify (ascii ''Alice'') (ascii ''Hello there'' @ 10 # ascii ''nice to meet you'') = Text"
  "classify (ascii ''Bob'') (ascii ''Hi!'') = Text"
  by (simp_all add: classify_def py_strip_def is_space_def system_sender_def ascii_def)



















section \<open>The claims about the page\<close>

text \<open>
  Claim C9. When the session flag \<^verbatim>\<open>admin_logged_in\<close> is not set to a true value, the
  page returns at once: it shows the login warning and nothing else, so the file
  uploader is not offered and the parser is not called, and the session state is left
  as it was. (A flag that holds a DataFrame has no truth value: line 17 raises before
  anything is shown; the uploader and the parser are not reached then either.)
\<close>

theorem admin_gate:
  assumes "admin_logged_in s \<noteq> Inr True"
  shows "state (whatsapp_chat_analyzer e s) = s
       \<and> (trace (whatsapp_chat_analyzer e s) = [Warning login_warning]
            \<and> uncaught (whatsapp_chat_analyzer e s) = None
          \<or> trace (whatsapp_chat_analyzer e s) = []
            \<and> uncaught (whatsapp_chat_analyzer e s) = Some ValueError)"
proof (cases "admin_logged_in s")
  case (Inl err)
  then have "err = ValueError"
    unfolding admin_logged_in_def
    by (cases "session_get s ''admin_logged_in'' (PBool False)") auto
  with Inl show ?thesis
    by (simp add: whatsapp_chat_analyzer_def)
next
  case (Inr b)
  with assms have "admin_logged_in s = Inr False" by simp
  then show ?thesis
    by (simp add: whatsapp_chat_analyzer_def)
qed

theorem admin_gate_witness:
  "admin_logged_in Map.empty \<noteq> Inr True
   \<and> state (whatsapp_chat_analyzer sample_env Map.empty) = Map.empty
   \<and> trace (whatsapp_chat_analyzer sample_env Map.empty) = [Warning login_warning]"
proof -
  have h: "admin_logged_in Map.empty \<noteq> Inr True"
    by (simp add: admin_logged_in_def session_get_def)
  have "trace (whatsapp_chat_analyzer sample_env Map.empty) \<noteq> []"
    by (simp add: whatsapp_chat_analyzer_def admin_logged_in_def session_get_def)
  with admin_gate [OF h, of sample_env] h show ?thesis by simp
qed

text \<open>
  Claim C10. After parsing, every record whose date pandas cannot coerce is removed
  before the table is stored under \<^verbatim>\<open>chat_df\<close> and before any statistic is computed: the
  stored table holds exactly the kept rows, the preview, the four metrics and the charts
  are computed from the kept table, and the page reports neither a warning nor a count
  of the removed records (the only metrics are the four of the kept rows).
\<close>

theorem uncoercible_dates_dropped:
  assumes logged: "admin_logged_in s = Inr True"
    and up: "uploaded_file e = Some bytes"
    and dec: "decode_utf8 bytes = Some chat_data"
    and parsed: "preprocess_chat e chat_data = Inr (PFrame df)"
    and datecol: "''date'' \<in> set (columns df)"
  shows "(\<exists>T. state (whatsapp_chat_analyzer e s) ''chat_df'' = Some (PFrame T)
            \<and> col T ''date'' = map (\<lambda>r. CTime (the (coerced e df r))) (kept_rows e df)
            \<and> col T ''user'' = map (\<lambda>r. cell_of r ''user'') (kept_rows e df)
            \<and> col T ''message'' = map (\<lambda>r. cell_of r ''message'') (kept_rows e df))
       \<and> filter warning_event (trace (whatsapp_chat_analyzer e s)) = []
       \<and> (\<forall>msgs. ''message'' \<in> set (columns df)
              \<and> all_str AttributeError (map (\<lambda>r. cell_of r ''message'') (kept_rows e df))
                  = Inr msgs
            \<longrightarrow> filter metric_event (trace (whatsapp_chat_analyzer e s))
                  = shown_statistics e df msgs
              \<and> (\<exists>rest. trace (whatsapp_chat_analyzer e s)
                    = [Title ''WhatsApp Chat Analyzer'',
                       FileUploader ''Upload your WhatsApp chat file (.txt)'',
                       ParserCall chat_data, Subheader ''Chat Preview'',
                       DataframeView (head 20 (kept_table e df)),
                       Subheader ''Basic Statistics'']
                      @ shown_statistics e df msgs
                      @ [Subheader ''More Analysis Options'', Button ''sent_btn'',
                         Button ''tox_btn'']
                      @ fst (charts e (kept_table e df)) @ rest))"
proof -
  let ?T = "kept_table e df"
  let ?R = "whatsapp_chat_analyzer e s"
  have load: "load_table e chat_data = Inr ?T"
    using parsed datecol by (rule load_table_kept)
  obtain ev3 r3 T' where ch: "charts e ?T = (ev3, r3, T')"
    by (cases "charts e ?T") auto
  have "tidy ?T (charts e ?T)" by (rule tidy_charts)
  with ch have ev3: "list_all chart_event ev3" and ext: "extends ?T T'"
    by (auto simp: tidy_def)
  have keep: "col T' ''date'' = col ?T ''date''" "col T' ''user'' = col ?T ''user''"
    "col T' ''message'' = col ?T ''message''"
    using ext by (auto simp: extends_def derived_columns_def)
  show ?thesis
  proof (cases "basic_statistics ?T")
    case (Inl err)
    note an = analysis_stats_fail [OF dec load Inl, of s]
    note pg = page_logged_in [OF logged up an]
    have c1: "state ?R ''chat_df'' = Some (PFrame ?T)"
      by (simp add: pg)
    have c2: "filter warning_event (trace ?R) = []"
      using redirect_quiet [of "s(''chat_df'' \<mapsto> PFrame ?T)"]
      by (simp add: pg warning_event_def)
    have c3: False
      if "''message'' \<in> set (columns df)"
        and "all_str AttributeError (map (\<lambda>r. cell_of r ''message'') (kept_rows e df))
             = Inr msgs" for msgs
      using basic_statistics_kept [OF that] Inl by simp
    from c1 c2 c3 show ?thesis
      by (auto simp: col_kept_table)
  next
    case (Inr st4)
    obtain m w md l where st4: "st4 = (m, w, md, l)" by (cases st4) auto
    note an = analysis_charts [OF dec load Inr [unfolded st4] ch, of s]
    note pg = page_logged_in [OF logged up an]
    have c1: "\<exists>T. state ?R ''chat_df'' = Some (PFrame T)
            \<and> col T ''date'' = map (\<lambda>r. CTime (the (coerced e df r))) (kept_rows e df)
            \<and> col T ''user'' = map (\<lambda>r. cell_of r ''user'') (kept_rows e df)
            \<and> col T ''message'' = map (\<lambda>r. cell_of r ''message'') (kept_rows e df)"
      using keep by (simp add: pg col_kept_table)
    have c2: "filter warning_event (trace ?R) = []"
      using trace_quiet(1) [OF ev3] by (simp add: pg warning_event_def)
    have c3: "filter metric_event (trace ?R) = shown_statistics e df msgs
              \<and> (\<exists>rest. trace ?R
                    = [Title ''WhatsApp Chat Analyzer'',
                       FileUploader ''Upload your WhatsApp chat file (.txt)'',
                       ParserCall chat_data, Subheader ''Chat Preview'',
                       DataframeView (head 20 ?T),
                       Subheader ''Basic Statistics'']
                      @ shown_statistics e df msgs
                      @ [Subheader ''More Analysis Options'', Button ''sent_btn'',
                         Button ''tox_btn'']
                      @ fst (charts e ?T) @ rest)"
      if "''message'' \<in> set (columns df)"
        and "all_str AttributeError (map (\<lambda>r. cell_of r ''message'') (kept_rows e df))
             = Inr msgs" for msgs
    proof -
      from basic_statistics_kept [OF that] Inr st4
      have eq: "m = length (kept_rows e df)" "w = total_words msgs"
        "md = total_media msgs" "l = total_links msgs" by simp_all
      have "filter metric_event (trace ?R) = shown_statistics e df msgs"
        using trace_quiet(2) [OF ev3, where stats = "shown_statistics e df msgs"]
        by (simp add: pg eq shown_statistics_def metric_event_def)
      moreover have "\<exists>rest. trace ?R
                    = [Title ''WhatsApp Chat Analyzer'',
                       FileUploader ''Upload your WhatsApp chat file (.txt)'',
                       ParserCall chat_data, Subheader ''Chat Preview'',
                       DataframeView (head 20 ?T),
                       Subheader ''Basic Statistics'']
                      @ shown_statistics e df msgs
                      @ [Subheader ''More Analysis Options'', Button ''sent_btn'',
                         Button ''tox_btn'']
                      @ fst (charts e ?T) @ rest"
        by (simp add: pg eq shown_statistics_def ch)
      ultimately show ?thesis by simp
    qed
    from c1 c2 c3 show ?thesis by blast
  qed
qed

theorem uncoercible_dates_dropped_witness:
  "admin_logged_in logged_session = Inr True
   \<and> uploaded_file sample_env = Some sample_bytes
   \<and> decode_utf8 sample_bytes = Some (ascii sample_bytes)
   \<and> preprocess_chat sample_env (ascii sample_bytes) = Inr (PFrame sample_table)
   \<and> ''date'' \<in> set (columns sample_table)
   \<and> length (rows sample_table) = 2
   \<and> filter metric_event (trace (whatsapp_chat_analyzer sample_env logged_session))
       = [Metric ''Messages'' 1, Metric ''Words'' 2, Metric ''Media Shared'' 0,
          Metric ''Links Shared'' 0]
   \<and> filter warning_event (trace (whatsapp_chat_analyzer sample_env logged_session)) = []"
proof -
  have h1: "admin_logged_in logged_session = Inr True"
    by (simp add: admin_logged_in_def logged_session_def session_get_def)
  have h2: "uploaded_file sample_env = Some sample_bytes"
    by (simp add: sample_env_def)
  have h3: "decode_utf8 sample_bytes = Some (ascii sample_bytes)"
    by (simp add: decode_utf8_def sample_bytes_def ascii_def)
  have h4: "preprocess_chat sample_env (ascii sample_bytes) = Inr (PFrame sample_table)"
    by (simp add: sample_env_def)
  have h5: "''date'' \<in> set (columns sample_table)"
    by (simp add: sample_table_def)
  have kept: "kept_rows sample_env sample_table = [hd (rows sample_table)]"
    by (simp add: kept_rows_def coerced_def sample_env_def sample_table_def
          sample_coerce_def idle_env_def col_def cell_of_def ascii_def)
  have msgs: "''message'' \<in> set (columns sample_table)
      \<and> all_str AttributeError
            (map (\<lambda>r. cell_of r ''message'') (kept_rows sample_env sample_table))
          = Inr [ascii ''Hello there'']"
    by (simp add: kept) (simp add: sample_table_def cell_of_def)
  have stats: "shown_statistics sample_env sample_table [ascii ''Hello there'']
      = [Metric ''Messages'' 1, Metric ''Words'' 2, Metric ''Media Shared'' 0,
         Metric ''Links Shared'' 0]"
    by (simp add: shown_statistics_def kept total_words_def total_media_def total_links_def
          py_split_def is_space_def is_media_def is_link_def media_placeholder_def ascii_def)
  have two: "length (rows sample_table) = 2"
    by (simp add: sample_table_def)
  from uncoercible_dates_dropped [OF h1 h2 h3 h4 h5] msgs stats
  have "filter metric_event (trace (whatsapp_chat_analyzer sample_env logged_session))
          = [Metric ''Messages'' 1, Metric ''Words'' 2, Metric ''Media Shared'' 0,
             Metric ''Links Shared'' 0]"
    and "filter warning_event (trace (whatsapp_chat_analyzer sample_env logged_session)) = []"
    by auto
  with h1 h2 h3 h4 h5 two show ?thesis by simp
qed

subsection \<open>The interface between the parser and the page\<close>

text \<open>
  Claim C2, as amended. The page reads the table the parse call returns through columns
  named \<^verbatim>\<open>date\<close>, \<^verbatim>\<open>message\<close> and \<^verbatim>\<open>user\<close>, not through \<^verbatim>\<open>timestamp\<close>, \<^verbatim>\<open>sender\<close>,
  \<^verbatim>\<open>body\<close> and \<^verbatim>\<open>kind\<close>: without a \<^verbatim>\<open>date\<close> column the page reports
  \<^verbatim>\<open>KeyError('date')\<close> and stores nothing; with \<^verbatim>\<open>date\<close> but without \<^verbatim>\<open>message\<close> it
  reports \<^verbatim>\<open>KeyError('message')\<close> and shows no statistic; with both (the messages being
  strings) it shows the four statistics, whatever other columns there are; and without a
  \<^verbatim>\<open>user\<close> column neither chart by user is drawn. There is no \<^verbatim>\<open>kind\<close> column: media
  and links are counted from the message text.
\<close>

theorem columns_read:
  assumes logged: "admin_logged_in s = Inr True"
    and up: "uploaded_file e = Some bytes"
    and dec: "decode_utf8 bytes = Some chat_data"
    and parsed: "preprocess_chat e chat_data = Inr (PFrame df)"
  shows "(''date'' \<notin> set (columns df) \<longrightarrow>
            trace (whatsapp_chat_analyzer e s)
              = [Title ''WhatsApp Chat Analyzer'',
                 FileUploader ''Upload your WhatsApp chat file (.txt)'',
                 ParserCall chat_data, ErrorMsg (KeyError ''date'')] @ fst (redirect s)
            \<and> state (whatsapp_chat_analyzer e s) = s)
       \<and> (''date'' \<in> set (columns df) \<and> ''message'' \<notin> set (columns df) \<longrightarrow>
            filter metric_event (trace (whatsapp_chat_analyzer e s)) = []
            \<and> ErrorMsg (KeyError ''message'') \<in> set (trace (whatsapp_chat_analyzer e s)))
       \<and> (\<forall>msgs. ''date'' \<in> set (columns df) \<and> ''message'' \<in> set (columns df)
              \<and> all_str AttributeError (map (\<lambda>r. cell_of r ''message'') (kept_rows e df))
                  = Inr msgs
            \<longrightarrow> filter metric_event (trace (whatsapp_chat_analyzer e s))
                  = shown_statistics e df msgs)
       \<and> (''user'' \<notin> set (columns df) \<longrightarrow>
            filter user_chart (trace (whatsapp_chat_analyzer e s)) = [])"
proof (cases e bytes s rule: analysis_shapes)
  case undecodable
  with dec show ?thesis by simp
next
  case (rejected t err)
  with dec have t: "t = chat_data" by simp
  have nodate: "''date'' \<notin> set (columns df)"
    using load_table_kept [OF parsed] rejected(2) t by auto
  from load_table_no_date [OF parsed nodate] rejected(2) t
  have err: "err = KeyError ''date''" by simp
  note pg = page_logged_in [OF logged up rejected(3)]
  show ?thesis
    using nodate plain_events_quiet(4) [of s]
    by (simp add: pg t err user_chart_def)
next
  case (no_statistics t df' err)
  with dec parsed have t: "t = chat_data" and df': "df' = df" by simp_all
  note pg = page_logged_in [OF logged up no_statistics(5)]
  let ?s' = "s(''chat_df'' \<mapsto> PFrame (kept_table e df))"
  have c2: "err = KeyError ''message''" if "''message'' \<notin> set (columns df)"
    using basic_statistics_no_message [OF that, of e] no_statistics(4) df' by simp
  have c3: False
    if "''message'' \<in> set (columns df)"
      and "all_str AttributeError (map (\<lambda>r. cell_of r ''message'') (kept_rows e df))
           = Inr msgs" for msgs
    using basic_statistics_kept [OF that] no_statistics(4) df' by simp
  show ?thesis
    using no_statistics(3) c2 c3 plain_events_quiet(2,4) [of ?s']
    by (auto simp: pg t df' metric_event_def user_chart_def)
next
  case (shown t df' m w md l ev3 r T')
  with dec parsed have t: "t = chat_data" and df': "df' = df" by simp_all
  note pg = page_logged_in [OF logged up shown(6)]
  let ?T = "kept_table e df"
  let ?s' = "(buttons e (s(''chat_df'' \<mapsto> PFrame ?T)))(''chat_df'' \<mapsto> PFrame T')"
  have "tidy ?T (charts e ?T)" by (rule tidy_charts)
  with shown(5) df' have ev3: "list_all chart_event ev3" by (simp add: tidy_def)
  have msg: "''message'' \<in> set (columns df)"
    using basic_statistics_no_message [of df e] shown(4) df' by auto
  have metrics: "filter metric_event (trace (whatsapp_chat_analyzer e s))
      = [Metric ''Messages'' m, Metric ''Words'' w, Metric ''Media Shared'' md,
         Metric ''Links Shared'' l]"
    using chart_events_quiet [OF ev3] plain_events_quiet(2) [of ?s']
    by (simp add: pg df' metric_event_def split: option.splits)
  have c3: "filter metric_event (trace (whatsapp_chat_analyzer e s))
      = shown_statistics e df msgs"
    if "all_str AttributeError (map (\<lambda>r. cell_of r ''message'') (kept_rows e df))
           = Inr msgs" for msgs
    using basic_statistics_kept [OF msg that] shown(4) df' metrics
    by (simp add: shown_statistics_def)
  have c4: "filter user_chart (trace (whatsapp_chat_analyzer e s)) = []"
    if "''user'' \<notin> set (columns df)"
  proof -
    have "''user'' \<notin> set (columns ?T)" using that by (simp add: kept_table_def)
    from charts_need_user [OF this, of e] shown(5) df'
    have "filter user_chart ev3 = []" by simp
    then show ?thesis
      using plain_events_quiet(4) [of ?s']
      by (simp add: pg df' user_chart_def split: option.splits)
  qed
  from shown(3) df' msg c3 c4 show ?thesis by auto
qed

theorem columns_read_witness:
  "admin_logged_in logged_session = Inr True
   \<and> uploaded_file sample_env = Some sample_bytes
   \<and> decode_utf8 sample_bytes = Some (ascii sample_bytes)
   \<and> preprocess_chat sample_env (ascii sample_bytes) = Inr (PFrame sample_table)
   \<and> columns sample_table = [''date'', ''user'', ''message'']
   \<and> filter metric_event (trace (whatsapp_chat_analyzer sample_env logged_session))
       = [Metric ''Messages'' 1, Metric ''Words'' 2, Metric ''Media Shared'' 0,
          Metric ''Links Shared'' 0]"
proof -
  have cols: "columns sample_table = [''date'', ''user'', ''message'']"
    by (simp add: sample_table_def)
  from columns_read [OF logged_session_in sample_upload sample_decodes sample_parsed]
    sample_messages cols
  have "filter metric_event (trace (whatsapp_chat_analyzer sample_env logged_session))
        = shown_statistics sample_env sample_table [ascii ''Hello there'']"
    by simp
  with logged_session_in sample_upload sample_decodes sample_parsed cols sample_statistics
  show ?thesis by simp
qed

text \<open>
  The claim C2 as the specification states it fails: on a table that has exactly the
  four columns \<^verbatim>\<open>timestamp\<close>, \<^verbatim>\<open>sender\<close>, \<^verbatim>\<open>body\<close>, \<^verbatim>\<open>kind\<close> the page reads
  \<^verbatim>\<open>df['date']\<close> at line 31, reports the \<^verbatim>\<open>KeyError\<close> and stores no table.
\<close>

theorem four_spec_columns_rejected:
  "trace (whatsapp_chat_analyzer spec_columns_env logged_session)
     = [Title ''WhatsApp Chat Analyzer'',
        FileUploader ''Upload your WhatsApp chat file (.txt)'',
        ParserCall (ascii sample_bytes), ErrorMsg (KeyError ''date'')]
   \<and> state (whatsapp_chat_analyzer spec_columns_env logged_session) ''chat_df'' = None
   \<and> columns spec_columns_table = [''timestamp'', ''sender'', ''body'', ''kind'']"
proof -
  have up: "uploaded_file spec_columns_env = Some sample_bytes"
    by (simp add: spec_columns_env_def sample_env_def)
  have "load_table spec_columns_env (ascii sample_bytes) = Inl (KeyError ''date'')"
    by (rule load_table_no_date [where df = spec_columns_table])
       (simp_all add: spec_columns_env_def sample_env_def spec_columns_table_def)
  note an = analysis_load_fail [OF sample_decodes this, of logged_session]
  note pg = page_logged_in [OF logged_session_in up an]
  show ?thesis
    by (simp add: pg) (simp add: logged_session_def spec_columns_table_def)
qed







subsection \<open>Media and links\<close>

text \<open>
  Claim C3, as amended. A record is counted as media exactly when its body contains the
  placeholder \<^verbatim>\<open><Media omitted>\<close> somewhere (line 45: \<^verbatim>\<open>str.contains\<close>), not only when
  the body is the placeholder; in particular a body equal to the placeholder is counted;
  and the test looks at nothing else in the body, so whatever stands before and after the
  placeholder (a link, say) the record is still counted as media. The number shown as
  "Media Shared" is the number of such bodies.
\<close>

theorem media_counted_by_substring:
  "(is_media msg \<longleftrightarrow> (\<exists>a b. msg = a @ media_placeholder @ b))
   \<and> is_media media_placeholder
   \<and> is_media (a @ media_placeholder @ b)
   \<and> total_media msgs = length (filter (\<lambda>m. \<exists>a b. m = a @ media_placeholder @ b) msgs)
   \<and> shown_statistics e df msgs ! 2
       = Metric ''Media Shared''
           (length (filter (\<lambda>m. \<exists>a b. m = a @ media_placeholder @ b) msgs))"
proof -
  have one: "is_media media_placeholder"
    unfolding is_media_iff by (rule exI [of _ "[]"], rule exI [of _ "[]"]) simp
  have any: "is_media (a @ media_placeholder @ b)"
    unfolding is_media_iff by blast
  have tot: "total_media msgs
      = length (filter (\<lambda>m. \<exists>a b. m = a @ media_placeholder @ b) msgs)"
  proof -
    have "is_media = (\<lambda>m. \<exists>a b. m = a @ media_placeholder @ b)"
      by (rule ext) (simp add: is_media_iff)
    then show ?thesis by (simp add: total_media_def)
  qed
  show ?thesis
    using one any tot by (simp add: is_media_iff shown_statistics_def)
qed

text \<open>
  The claim C3 as the specification states it fails: the body \<^verbatim>\<open>hello <Media omitted>\<close>
  is counted as media although it is not the placeholder, neither exactly nor up to
  whitespace.
\<close>

theorem media_counted_inside_text:
  "is_media (ascii ''hello <Media omitted>'')
   \<and> total_media [ascii ''hello <Media omitted>''] = 1
   \<and> ascii ''hello <Media omitted>'' \<noteq> media_placeholder
   \<and> \<not> entirely_placeholder (ascii ''hello <Media omitted>'')"
  by (simp add: total_media_def is_media_def media_placeholder_def entirely_placeholder_def
        py_strip_def is_space_def ascii_def)




section \<open>The claims about the parser\<close>

text \<open>
  Claim C1. Parsed with the month-first configuration, the text
  \<^verbatim>\<open>12/1/23, 10:05 - Alice: Hello there\<close>, \<^verbatim>\<open>nice to meet you\<close>,
  \<^verbatim>\<open>12/1/23, 10:06 - Bob: Hi!\<close> (three lines) gives exactly two records and no skipped
  line: the first of 2023-12-01 10:05 by Alice, whose body is the first line's message
  and, after a newline, the continuation line, of kind Text; the second of 2023-12-01
  10:06 by Bob with body \<^verbatim>\<open>Hi!\<close>, of kind Text. The parser is the one of the
  specification.
\<close>

theorem scenario_parse:
  "parse month_first scenario =
     ([\<lparr>timestamp = \<lparr>year = 2023, month = 12, day = 1, hour = 10, minute = 5, second = 0\<rparr>,
        sender = ascii ''Alice'',
        body = ascii ''Hello there'' @ 10 # ascii ''nice to meet you'', kind = Text\<rparr>,
       \<lparr>timestamp = \<lparr>year = 2023, month = 12, day = 1, hour = 10, minute = 6, second = 0\<rparr>,
        sender = ascii ''Bob'', body = ascii ''Hi!'', kind = Text\<rparr>], 0)"
  by (simp add: parse_def scenario_lines feed_def scenario_line1 scenario_line2 scenario_line3
        finalize_def scenario_kinds)



end
